theory Spec2Isabelle
  imports Main "HOL-Library.AList" "HOL-Library.Sublist"
begin

section \<open>Strings\<close>

text \<open>
  A JavaScript string is modelled by the bytes of its UTF-8 encoding, which is what
  \<^verbatim>\<open>writeFileSync\<close> puts on disk for a string argument. Characters outside ASCII are
  therefore short byte lists; the ones the templates use are named below.
\<close>

abbreviation backslash :: string where "backslash \<equiv> [CHR 0x5C]"
abbreviation dquote :: string where "dquote \<equiv> [CHR 0x22]"
abbreviation squote :: string where "squote \<equiv> [CHR 0x27]"
abbreviation newline :: char where "newline \<equiv> CHR 0x0A"

text \<open>\<^verbatim>\<open>Array.prototype.join\<close> on a list of strings.\<close>

fun join_with :: "string \<Rightarrow> string list \<Rightarrow> string" where
  "join_with sep [] = []"
| "join_with sep [x] = x"
| "join_with sep (x # y # ys) = x @ sep @ join_with sep (y # ys)"

text \<open>A text from its lines, and the lines of a text (\<^verbatim>\<open>String.prototype.split\<close>).\<close>

definition unlines :: "string list \<Rightarrow> string" where
  "unlines ls = concat (map (\<lambda>l. l @ [newline]) ls)"

fun split_on :: "char \<Rightarrow> string \<Rightarrow> string list" where
  "split_on sep [] = [[]]"
| "split_on sep (c # cs) =
     (if c = sep then [] # split_on sep cs
      else (case split_on sep cs of [] \<Rightarrow> [[c]] | s # ss \<Rightarrow> (c # s) # ss))"

definition lines_of :: "string \<Rightarrow> string list" where
  "lines_of text = split_on newline text"

section \<open>JSON values and \<^verbatim>\<open>JSON.stringify\<close>\<close>

text \<open>
  The objects the generators build hold strings, booleans, arrays and nested objects.
  An object is an association list in insertion order, the order in which JavaScript
  enumerates string keys that are not array indices.
\<close>

datatype json =
    JNull
  | JBool bool
  | JString string
  | JArray "json list"
  | JObject "(string \<times> json) list"

definition hex_digit :: "nat \<Rightarrow> char" where
  "hex_digit n = ''0123456789abcdef'' ! (n mod 16)"

text \<open>
  \<^verbatim>\<open>QuoteJSONString\<close> of ECMA-262: the quote, the backslash and the control characters
  below U+0020 are escaped, every other code unit is copied.
\<close>

definition quote_char :: "char \<Rightarrow> string" where
  "quote_char c =
     (if c = CHR 0x08 then backslash @ ''b''
      else if c = CHR 0x09 then backslash @ ''t''
      else if c = CHR 0x0A then backslash @ ''n''
      else if c = CHR 0x0C then backslash @ ''f''
      else if c = CHR 0x0D then backslash @ ''r''
      else if c = CHR 0x22 then backslash @ dquote
      else if c = CHR 0x5C then backslash @ backslash
      else if (of_char c :: nat) < 0x20
        then backslash @ ''u00'' @ [hex_digit (of_char c div 16), hex_digit (of_char c)]
      else [c])"

definition QuoteJSONString :: "string \<Rightarrow> string" where
  "QuoteJSONString s = dquote @ concat (map quote_char s) @ dquote"

text \<open>
  \<^verbatim>\<open>SerializeJSONProperty\<close> with its two pieces of state, the gap and the current
  indentation. An empty object or array is written without a line break.
\<close>

fun SerializeJSONProperty :: "string \<Rightarrow> string \<Rightarrow> json \<Rightarrow> string" where
  "SerializeJSONProperty gap indent JNull = ''null''"
| "SerializeJSONProperty gap indent (JBool b) = (if b then ''true'' else ''false'')"
| "SerializeJSONProperty gap indent (JString s) = QuoteJSONString s"
| "SerializeJSONProperty gap indent (JArray vs) =
     (let stepback = indent; indent = indent @ gap;
          partial = map (SerializeJSONProperty gap indent) vs
      in if partial = [] then ''[]''
         else if gap = [] then ''['' @ join_with '','' partial @ '']''
         else ''[\<newline>'' @ indent @ join_with ('',\<newline>'' @ indent) partial
              @ ''\<newline>'' @ stepback @ '']'')"
| "SerializeJSONProperty gap indent (JObject kvs) =
     (let stepback = indent; indent = indent @ gap;
          partial = map (\<lambda>kv. QuoteJSONString (fst kv) @ '':''
                               @ (if gap = [] then [] else '' '')
                               @ SerializeJSONProperty gap indent (snd kv)) kvs
      in if partial = [] then ''{}''
         else if gap = [] then ''{'' @ join_with '','' partial @ ''}''
         else ''{\<newline>'' @ indent @ join_with ('',\<newline>'' @ indent) partial
              @ ''\<newline>'' @ stepback @ ''}'')"

text \<open>\<^verbatim>\<open>JSON.stringify(value, null, space)\<close> for a numeric \<open>space\<close> of at most 10.\<close>

definition JSON_stringify :: "json \<Rightarrow> nat \<Rightarrow> string" where
  "JSON_stringify v space = SerializeJSONProperty (replicate (min space 10) CHR '' '') [] v"

text \<open>Reading a property of an object, and the keys of an object in order.\<close>

fun json_field :: "string \<Rightarrow> json \<Rightarrow> json option" where
  "json_field k (JObject kvs) = map_of kvs k"
| "json_field k _ = None"

fun json_keys :: "json \<Rightarrow> string list" where
  "json_keys (JObject kvs) = map fst kvs"
| "json_keys _ = []"

subsection \<open>JSON text\<close>

text \<open>
  What "parseable" means for a file: a recogniser of the JSON grammar of RFC 8259
  that returns the value read. It leaves out number literals and \<^verbatim>\<open>\u\<close> escapes, which
  the generated files do not contain, so a text it accepts is JSON. The text is cut
  into tokens first; values are then read by recursive descent, with a bound on the
  depth of the descent that the number of tokens provides.
\<close>

datatype token =
    LBrace | RBrace | LBracket | RBracket | Colon | Comma
  | TString string
  | TLiteral json

datatype lex_state =
    Top
  | InString string
  | Escape string
  | Keyword string json

definition unescape_char :: "char \<Rightarrow> char option" where
  "unescape_char c =
     (if c = CHR 0x22 then Some (CHR 0x22)
      else if c = CHR 0x5C then Some (CHR 0x5C)
      else if c = CHR ''/'' then Some CHR ''/''
      else if c = CHR ''b'' then Some (CHR 0x08)
      else if c = CHR ''f'' then Some (CHR 0x0C)
      else if c = CHR ''n'' then Some (CHR 0x0A)
      else if c = CHR ''r'' then Some (CHR 0x0D)
      else if c = CHR ''t'' then Some (CHR 0x09)
      else None)"

definition emit :: "token \<Rightarrow> token list option \<Rightarrow> token list option" where
  "emit t r = map_option ((#) t) r"

fun lex :: "lex_state \<Rightarrow> string \<Rightarrow> token list option" where
  "lex Top [] = Some []"
| "lex Top (c # cs) =
     (if c = CHR '' '' \<or> c = CHR 0x0A \<or> c = CHR 0x0D \<or> c = CHR 0x09 then lex Top cs
      else if c = CHR ''{'' then emit LBrace (lex Top cs)
      else if c = CHR ''}'' then emit RBrace (lex Top cs)
      else if c = CHR ''['' then emit LBracket (lex Top cs)
      else if c = CHR '']'' then emit RBracket (lex Top cs)
      else if c = CHR '':'' then emit Colon (lex Top cs)
      else if c = CHR '','' then emit Comma (lex Top cs)
      else if c = CHR 0x22 then lex (InString []) cs
      else if c = CHR ''t'' then lex (Keyword ''rue'' (JBool True)) cs
      else if c = CHR ''f'' then lex (Keyword ''alse'' (JBool False)) cs
      else if c = CHR ''n'' then lex (Keyword ''ull'' JNull) cs
      else None)"
| "lex (InString acc) [] = None"
| "lex (InString acc) (c # cs) =
     (if c = CHR 0x22 then emit (TString acc) (lex Top cs)
      else if c = CHR 0x5C then lex (Escape acc) cs
      else if (of_char c :: nat) < 0x20 then None
      else lex (InString (acc @ [c])) cs)"
| "lex (Escape acc) [] = None"
| "lex (Escape acc) (c # cs) =
     (case unescape_char c of
        None \<Rightarrow> None
      | Some d \<Rightarrow> lex (InString (acc @ [d])) cs)"
| "lex (Keyword k v) [] = None"
| "lex (Keyword k v) (c # cs) =
     (case k of
        [] \<Rightarrow> None
      | x # xs \<Rightarrow>
          if c \<noteq> x then None
          else if xs = [] then emit (TLiteral v) (lex Top cs)
          else lex (Keyword xs v) cs)"

fun parse_value :: "nat \<Rightarrow> token list \<Rightarrow> (json \<times> token list) option"
  and parse_elements :: "nat \<Rightarrow> token list \<Rightarrow> (json list \<times> token list) option"
  and parse_members :: "nat \<Rightarrow> token list \<Rightarrow> ((string \<times> json) list \<times> token list) option"
where
  "parse_value 0 ts = None"
| "parse_value (Suc n) [] = None"
| "parse_value (Suc n) (t # ts) =
     (case t of
        TLiteral v \<Rightarrow> Some (v, ts)
      | TString s \<Rightarrow> Some (JString s, ts)
      | LBracket \<Rightarrow>
          (case ts of
             RBracket # r \<Rightarrow> Some (JArray [], r)
           | _ \<Rightarrow> map_option (\<lambda>(vs, r). (JArray vs, r)) (parse_elements n ts))
      | LBrace \<Rightarrow>
          (case ts of
             RBrace # r \<Rightarrow> Some (JObject [], r)
           | _ \<Rightarrow> map_option (\<lambda>(kvs, r). (JObject kvs, r)) (parse_members n ts))
      | _ \<Rightarrow> None)"
| "parse_elements 0 ts = None"
| "parse_elements (Suc n) ts =
     (case parse_value n ts of
        None \<Rightarrow> None
      | Some (v, r) \<Rightarrow>
          (case r of
             RBracket # r' \<Rightarrow> Some ([v], r')
           | Comma # r' \<Rightarrow> map_option (\<lambda>(vs, r''). (v # vs, r'')) (parse_elements n r')
           | _ \<Rightarrow> None))"
| "parse_members 0 ts = None"
| "parse_members (Suc n) ts =
     (case ts of
        TString k # Colon # ts' \<Rightarrow>
          (case parse_value n ts' of
             None \<Rightarrow> None
           | Some (v, r) \<Rightarrow>
               (case r of
                  RBrace # r' \<Rightarrow> Some ([(k, v)], r')
                | Comma # r' \<Rightarrow> map_option (\<lambda>(kvs, r''). ((k, v) # kvs, r'')) (parse_members n r')
                | _ \<Rightarrow> None))
      | _ \<Rightarrow> None)"

definition JSON_parse :: "string \<Rightarrow> json option" where
  "JSON_parse text =
     (case lex Top text of
        None \<Rightarrow> None
      | Some ts \<Rightarrow>
          (case parse_value (Suc (length ts)) ts of
             Some (v, []) \<Rightarrow> Some v
           | _ \<Rightarrow> None))"

section \<open>Configuration\<close>

record ProjectConfig =
  projectName :: string
  projectPath :: string
  typescript :: bool
  database :: string
  template :: string

section \<open>The manifest\<close>

text \<open>A \<^verbatim>\<open>Record<string, string>\<close> becomes a JSON object of string values.\<close>

definition record_json :: "(string \<times> string) list \<Rightarrow> json" where
  "record_json r = JObject (map (\<lambda>kv. (fst kv, JString (snd kv))) r)"

definition base_dependencies :: "(string \<times> string) list" where
  "base_dependencies =
     [(''express'', ''^4.18.2''),
      (''express-async-handler'', ''^1.2.0''),
      (''@prisma/client'', ''^7.1.0''),
      (''@prisma/adapter-better-sqlite3'', ''^7.1.0''),
      (''better-sqlite3'', ''^12.5.0''),
      (''dotenv'', ''^17.2.3'')]"

definition base_devDependencies :: "(string \<times> string) list" where
  "base_devDependencies =
     [(''@types/node'', ''^20.10.6''),
      (''@types/express'', ''^4.17.21''),
      (''@types/better-sqlite3'', ''^7.6.13''),
      (''prisma'', ''^7.1.0'')]"

text \<open>
  The two tables after the \<^verbatim>\<open>if (typescript)\<close> statement. An assignment to a property
  is \<^const>\<open>AList.update\<close>: it replaces the value of an existing key in place and
  appends a new key.
\<close>

definition dependencies :: "bool \<Rightarrow> (string \<times> string) list" where
  "dependencies ts =
     (if ts then base_dependencies
      else AList.update ''@prisma/client-runtime-utils'' ''^7.1.0'' base_dependencies)"

definition devDependencies :: "bool \<Rightarrow> (string \<times> string) list" where
  "devDependencies ts =
     (if ts then AList.update ''tsx'' ''^4.7.0''
                   (AList.update ''typescript'' ''^5.3.3'' base_devDependencies)
      else base_devDependencies)"

definition scripts :: "bool \<Rightarrow> (string \<times> string) list" where
  "scripts ts =
     (if ts then
        [(''dev'', ''tsx watch --env-file=.env src/index.ts''),
         (''build'', ''tsc''),
         (''start'', ''node --env-file=.env dist/index.js''),
         (''db:generate'', ''prisma generate''),
         (''db:push'', ''prisma db push''),
         (''db:migrate'', ''prisma migrate dev''),
         (''db:studio'', ''prisma studio'')]
      else
        [(''dev'', ''node --watch --env-file=.env src/index.js''),
         (''start'', ''node --env-file=.env src/index.js''),
         (''db:generate'', ''prisma generate''),
         (''db:push'', ''prisma db push''),
         (''db:migrate'', ''prisma migrate dev''),
         (''db:studio'', ''prisma studio'')])"

definition generatePackageJson :: "ProjectConfig \<Rightarrow> json" where
  "generatePackageJson config =
     JObject
       [(''name'', JString (projectName config)),
        (''version'', JString ''1.0.0''),
        (''type'', JString ''module''),
        (''main'', JString (if typescript config then ''dist/index.js'' else ''src/index.js'')),
        (''scripts'', record_json (scripts (typescript config))),
        (''dependencies'', record_json (dependencies (typescript config))),
        (''devDependencies'', record_json (devDependencies (typescript config))),
        (''license'', JString ''MIT'')]"

section \<open>The text templates\<close>

text \<open>
  The characters outside ASCII that the templates contain, as UTF-8:
  U+1F680, U+2615, U+26A0, U+FE0F, U+1F389, U+1F4CB, U+1F3AF, U+1F4C1, the box-drawing
  characters U+251C, U+2500, U+2502, U+2514, then U+1F9EA, U+1F4DD, U+1F6E0, U+1F4DA,
  U+1F41B, U+1F4AC, U+1F4A1, U+1F4E7 and U+2764.
\<close>

abbreviation rocket :: string where "rocket \<equiv> [CHR 0xF0, CHR 0x9F, CHR 0x9A, CHR 0x80]"
abbreviation hot_beverage :: string where "hot_beverage \<equiv> [CHR 0xE2, CHR 0x98, CHR 0x95]"
abbreviation warning_sign :: string where "warning_sign \<equiv> [CHR 0xE2, CHR 0x9A, CHR 0xA0]"
abbreviation variation_selector :: string where "variation_selector \<equiv> [CHR 0xEF, CHR 0xB8, CHR 0x8F]"
abbreviation party_popper :: string where "party_popper \<equiv> [CHR 0xF0, CHR 0x9F, CHR 0x8E, CHR 0x89]"
abbreviation clipboard :: string where "clipboard \<equiv> [CHR 0xF0, CHR 0x9F, CHR 0x93, CHR 0x8B]"
abbreviation direct_hit :: string where "direct_hit \<equiv> [CHR 0xF0, CHR 0x9F, CHR 0x8E, CHR 0xAF]"
abbreviation file_folder :: string where "file_folder \<equiv> [CHR 0xF0, CHR 0x9F, CHR 0x93, CHR 0x81]"
abbreviation box_vr :: string where "box_vr \<equiv> [CHR 0xE2, CHR 0x94, CHR 0x9C]"
abbreviation box_h :: string where "box_h \<equiv> [CHR 0xE2, CHR 0x94, CHR 0x80]"
abbreviation box_v :: string where "box_v \<equiv> [CHR 0xE2, CHR 0x94, CHR 0x82]"
abbreviation box_ur :: string where "box_ur \<equiv> [CHR 0xE2, CHR 0x94, CHR 0x94]"
abbreviation test_tube :: string where "test_tube \<equiv> [CHR 0xF0, CHR 0x9F, CHR 0xA7, CHR 0xAA]"
abbreviation memo :: string where "memo \<equiv> [CHR 0xF0, CHR 0x9F, CHR 0x93, CHR 0x9D]"
abbreviation hammer_and_wrench :: string where "hammer_and_wrench \<equiv> [CHR 0xF0, CHR 0x9F, CHR 0x9B, CHR 0xA0]"
abbreviation books :: string where "books \<equiv> [CHR 0xF0, CHR 0x9F, CHR 0x93, CHR 0x9A]"
abbreviation bug :: string where "bug \<equiv> [CHR 0xF0, CHR 0x9F, CHR 0x90, CHR 0x9B]"
abbreviation speech_balloon :: string where "speech_balloon \<equiv> [CHR 0xF0, CHR 0x9F, CHR 0x92, CHR 0xAC]"
abbreviation light_bulb :: string where "light_bulb \<equiv> [CHR 0xF0, CHR 0x9F, CHR 0x92, CHR 0xA1]"
abbreviation e_mail :: string where "e_mail \<equiv> [CHR 0xF0, CHR 0x9F, CHR 0x93, CHR 0xA7]"
abbreviation heavy_black_heart :: string where "heavy_black_heart \<equiv> [CHR 0xE2, CHR 0x9D, CHR 0xA4]"

text \<open>
  Each template literal is given as the list of its lines, every line ended by a line
  feed: a line of the source is an entry of the list, and an interpolation
  \<^verbatim>\<open>${...}\<close> is the expression it holds. An interpolated string that ends in a line
  feed is an entry of its own.
\<close>

definition generateIndexFile :: "bool \<Rightarrow> string" where
  \<open>generateIndexFile ts =
     (if ts then unlines
        [''import express, { Request, Response } from "express";'',
         ''    '',
         ''import errorHandler from "./middlewares/error.middleware";'',
         '''',
         ''const app = express();'',
         ''const PORT = process.env.PORT || 3000;'',
         '''',
         ''// Middleware'',
         ''app.use(express.json());'',
         ''app.use(express.urlencoded({ extended: true }));'',
         ''app.use(express.static("public"));'',
         '''',
         ''// Routes'',
         ''app.get("/", (_: Request, res: Response) => {'',
         ''  res.json({ message: "Welcome to Kickpress!" });'',
         ''});'',
         '''',
         ''// Error Handler'',
         ''app.use(errorHandler);'',
         '''',
         ''app.listen(PORT, () => {'',
         ''  console.log(`'' @ rocket @ '' Server running on http://localhost:${PORT}`);'',
         ''});'']
      else unlines
        [''import express from "express";'',
         '''',
         ''import errorHandler from "./middlewares/error.middleware.js";'',
         '''',
         ''const app = express();'',
         ''const PORT = process.env.PORT || 3000;'',
         '''',
         ''// Middleware'',
         ''app.use(express.json());'',
         ''app.use(express.urlencoded({ extended: true }));'',
         ''app.use(express.static("public"));'',
         '''',
         ''// Routes'',
         ''app.get("/", (_, res) => {'',
         ''  res.json({ message: "Welcome to Kickpress!" });'',
         ''});'',
         '''',
         ''// Error Handler'',
         ''app.use(errorHandler);'',
         '''',
         ''app.listen(PORT, () => {'',
         ''  console.log(`'' @ rocket @ '' Server running on http://localhost:${PORT}`);'',
         ''});''])\<close>

definition generateErrorMiddleware :: "bool \<Rightarrow> string" where
  \<open>generateErrorMiddleware ts =
     (if ts then unlines
        [''import { Prisma } from "../lib/generated/prisma/client";'',
         ''import { NextFunction, Request, Response } from "express";'',
         '''',
         ''const errorHandler = ('',
         ''  err: Error | Prisma.PrismaClientKnownRequestError,'',
         ''  req: Request,'',
         ''  res: Response,'',
         ''  next: NextFunction'',
         '') => {'',
         ''  let statusCode = res.statusCode !== 200 ? res.statusCode : 500;'',
         ''  let message: string | object = err.message;'',
         '''',
         ''  if (err instanceof Prisma.PrismaClientKnownRequestError) {'',
         ''    if (err.code === "P2002") {'',
         ''      statusCode = 409;'',
         ''      message = `Duplicate field value: ${err.meta?.target}`;'',
         ''    } else if (err.code === "P2025") {'',
         ''      statusCode = 404;'',
         ''      message = `Resource not found: ${err.meta?.cause}`;'',
         ''    }'',
         ''  }'',
         '''',
         ''  res.status(statusCode).json({'',
         ''    message: message,'',
         ''    stack: process.env.NODE_ENV === "production" ? null : err.stack,'',
         ''  });'',
         ''};'',
         '''',
         ''export default errorHandler;'']
      else unlines
        [''const errorHandler = (err, req, res, next) => {'',
         ''  let statusCode = res.statusCode !== 200 ? res.statusCode : 500;'',
         ''  let message = err.message;'',
         '''',
         ''  // Handle Prisma errors'',
         ''  if (err.code === "P2002") {'',
         ''    statusCode = 409;'',
         ''    message = `Duplicate field value: ${err.meta?.target}`;'',
         ''  } else if (err.code === "P2025") {'',
         ''    statusCode = 404;'',
         ''    message = `Resource not found: ${err.meta?.cause}`;'',
         ''  }'',
         '''',
         ''  res.status(statusCode).json({'',
         ''    message: message,'',
         ''    stack: process.env.NODE_ENV === "production" ? null : err.stack,'',
         ''  });'',
         ''};'',
         '''',
         ''export default errorHandler;''])\<close>

definition generatePrismaClient :: "bool \<Rightarrow> string" where
  \<open>generatePrismaClient ts =
     (if ts then unlines
        [''import { PrismaClient } from "./generated/prisma/client";'',
         ''import { PrismaBetterSqlite3 } from "@prisma/adapter-better-sqlite3";'',
         '''',
         ''const adapter = new PrismaBetterSqlite3({'',
         ''  url: process.env.DATABASE_URL!,'',
         ''});'',
         '''',
         ''const prisma = new PrismaClient({ adapter });'',
         '''',
         ''export default prisma;'']
      else unlines
        [''import { PrismaClient } from "./generated/prisma/index.js";'',
         ''import { PrismaBetterSqlite3 } from "@prisma/adapter-better-sqlite3";'',
         '''',
         ''const adapter = new PrismaBetterSqlite3({'',
         ''  url: process.env.DATABASE_URL,'',
         ''});'',
         '''',
         ''const prisma = new PrismaClient({ adapter });'',
         '''',
         ''export default prisma;''])\<close>

definition generatePrismaSchema :: string where
  \<open>generatePrismaSchema =
     unlines
       [''generator client {'',
        ''  provider = "prisma-client"'',
        ''  output   = "../src/lib/generated/prisma"'',
        ''}'',
        '''',
        ''datasource db {'',
        ''  provider = "sqlite"'',
        ''}'',
        '''']\<close>

definition generatePrismaConfig :: string where
  \<open>generatePrismaConfig =
     unlines
       [''import "dotenv/config";'',
        ''import { defineConfig, env } from "prisma/config";'',
        '''',
        ''export default defineConfig({'',
        ''  schema: "prisma/schema.prisma",'',
        ''  migrations: {'',
        ''    path: "prisma/migrations",'',
        ''  },'',
        ''  datasource: {'',
        ''    url: env("DATABASE_URL"),'',
        ''  },'',
        ''});'']\<close>

definition tsconfig :: json where
  "tsconfig =
     JObject
       [(''compilerOptions'', JObject
          [(''target'', JString ''ES2022''),
           (''module'', JString ''ESNext''),
           (''moduleResolution'', JString ''bundler''),
           (''outDir'', JString ''./dist''),
           (''rootDir'', JString ''./src''),
           (''strict'', JBool True),
           (''esModuleInterop'', JBool True),
           (''skipLibCheck'', JBool True),
           (''forceConsistentCasingInFileNames'', JBool True),
           (''resolveJsonModule'', JBool True),
           (''allowSyntheticDefaultImports'', JBool True),
           (''paths'', JObject [(''@/*'', JArray [JString ''./src/*''])])]),
        (''include'', JArray [JString ''src/**/*'']),
        (''exclude'', JArray [JString ''node_modules'', JString ''dist''])]"

definition generateTsConfig :: string where
  "generateTsConfig = JSON_stringify tsconfig 2"

definition generateEnvFile :: "string \<Rightarrow> string" where
  \<open>generateEnvFile db =
     unlines
       [''PORT=3000'',
        ''NODE_ENV=development'',
        ''DATABASE_URL="file:./dev.db"'']\<close>

definition generateGitignore :: string where
  \<open>generateGitignore =
     unlines
       [''node_modules'',
        ''.env'',
        ''.env.local'',
        ''dist'',
        ''*.log'',
        ''.DS_Store'',
        '''',
        ''# Prisma'',
        ''*.db'',
        ''*.db-journal'',
        ''src/lib/generated/'']\<close>

text \<open>
  The template literal of \<^verbatim>\<open>generateReadme\<close>, as the lines it has for the values of
  \<^verbatim>\<open>projectName\<close>, \<^verbatim>\<open>typescript\<close>, \<^verbatim>\<open>pm\<close> and \<^verbatim>\<open>runCmd\<close>.
\<close>

definition readme_lines :: "string \<Rightarrow> bool \<Rightarrow> string \<Rightarrow> string \<Rightarrow> string list" where
  \<open>readme_lines name ts pm runCmd =
        [''# '' @ name,
          '''',
          ''Created with [Kickpress CLI](https://github.com/clebertmarctyson/kickpress) '' @ hot_beverage,
          '''',
          ''A production-ready Express.js API with TypeScript, Prisma ORM, and best practices built-in.'',
          '''',
          ''## '' @ rocket @ '' Getting Started'',
          '''']
       @ (if pm = ''pnpm''
          then [''### '' @ warning_sign @ variation_selector @ '' Important: Approve Native Builds (pnpm only)'',
                '''',
                ''Before running the project, you need to approve native dependencies:'',
                '''',
                ''```bash'',
                ''pnpm approve-builds'',
                ''# Select: better-sqlite3 (press space, then enter)'',
                ''```'',
                '''',
                ''This is a one-time setup required by pnpm for native dependencies.'',
                '''',
                ''---'',
                '''']
          else [])
       @ [''### 1. Install Dependencies'',
          '''']
       @ [(if pm = ''pnpm''
           then ''Dependencies should already be installed. If not, run:''
           else ''Install all project dependencies:'')]
       @ ['''',
          ''```bash'',
          pm @ '' install'',
          ''```'',
          '''',
          ''### 2. Setup Database'',
          '''',
          ''```bash'',
          ''# Generate Prisma Client'',
          runCmd @ '' db:generate'',
          '''',
          ''# Push schema to database'',
          runCmd @ '' db:push'',
          ''```'',
          '''',
          ''### 3. Start Development Server'',
          '''',
          ''```bash'',
          runCmd @ '' dev'',
          ''```'',
          '''',
          ''Your API is now running at `http://localhost:3000`! '' @ party_popper,
          '''',
          ''## '' @ clipboard @ '' Available Commands'',
          '''',
          ''### Development'',
          ''- `'' @ runCmd @ '' dev` - Start development server with hot reload'',
          '''']
       @ (if ts
          then [''### Build'',
                ''- `'' @ runCmd @ '' build` - Compile TypeScript to JavaScript'',
                ''- `'' @ runCmd @ '' start` - Start production server'',
                '''']
          else [''### Production'',
                ''- `'' @ runCmd @ '' start` - Start production server'',
                ''''])
       @ [''### Database Management'',
          ''- `'' @ runCmd @ '' db:generate` - Generate Prisma Client'',
          ''- `'' @ runCmd @ '' db:push` - Push schema changes to database'',
          ''- `'' @ runCmd @ '' db:migrate` - Create a new migration'',
          ''- `'' @ runCmd @ '' db:studio` - Open Prisma Studio (database GUI)'',
          '''',
          ''## '' @ direct_hit @ '' Generate Resources'',
          '''',
          ''Kickpress can generate complete CRUD resources for any entity:'',
          '''',
          ''```bash'',
          ''# Generate everything (routes, controller, model, types, HTTP requests)'',
          ''npx kickpress make user resources'',
          ''npx kickpress gen post resources     # Short alias'',
          '''',
          ''# Generate individual components'',
          ''npx kickpress make user model'',
          ''npx kickpress make user controller'',
          ''npx kickpress make user routes'',
          ''```'',
          '''',
          ''**Available aliases:**'',
          ''- `make` / `m` / `gen` / `g` / `generate`'',
          '''',
          ''## '' @ file_folder @ '' Project Structure'',
          '''',
          ''```'',
          name @ ''/'',
          box_vr @ box_h @ box_h @ '' src/'',
          box_v @ ''   '' @ box_vr @ box_h @ box_h @ '' index.'' @ (if ts then ''ts'' else ''js'') @ ''           # Main entry point'',
          box_v @ ''   '' @ box_vr @ box_h @ box_h @ '' lib/'',
          box_v @ ''   '' @ box_v @ ''   '' @ box_ur @ box_h @ box_h @ '' prisma.'' @ (if ts then ''ts'' else ''js'') @ ''      # Prisma client'',
          box_v @ ''   '' @ box_vr @ box_h @ box_h @ '' controllers/                  # Request handlers'',
          box_v @ ''   '' @ box_vr @ box_h @ box_h @ '' models/                       # Database operations'',
          box_v @ ''   '' @ box_vr @ box_h @ box_h @ '' routes/                       # Express routes'']
       @ (if ts
          then [box_v @ ''   '' @ box_vr @ box_h @ box_h @ '' types/                        # TypeScript types'']
          else [])
       @ [box_v @ ''   '' @ box_vr @ box_h @ box_h @ '' middlewares/'',
          box_v @ ''   '' @ box_v @ ''   '' @ box_ur @ box_h @ box_h @ '' error.middleware.'' @ (if ts then ''ts'' else ''js''),
          box_v @ ''   '' @ box_vr @ box_h @ box_h @ '' config/                       # Configuration'',
          box_v @ ''   '' @ box_ur @ box_h @ box_h @ '' utils/                        # Utilities'',
          box_vr @ box_h @ box_h @ '' prisma/'',
          box_v @ ''   '' @ box_vr @ box_h @ box_h @ '' schema.prisma                 # Database schema'',
          box_v @ ''   '' @ box_ur @ box_h @ box_h @ '' migrations/                   # Database migrations'',
          box_vr @ box_h @ box_h @ '' requests/                         # HTTP test files'',
          box_vr @ box_h @ box_h @ '' .env                              # Environment variables'']
       @ (if ts
          then [box_vr @ box_h @ box_h @ '' tsconfig.json                     # TypeScript config'']
          else [])
       @ [box_ur @ box_h @ box_h @ '' package.json'',
          ''```'',
          '''',
          ''## '' @ test_tube @ '' Testing Your API'',
          '''',
          ''Each generated resource includes an `.http` file for testing. Use [REST Client](https://marketplace.visualstudio.com/items?itemName=humao.rest-client) extension in VS Code:'',
          '''',
          ''1. Open `requests/user.http`'',
          ''2. Click "Send Request" above any request'',
          ''3. View response in VS Code'',
          '''',
          ''Or use curl:'',
          '''',
          ''```bash'',
          ''# Get all users'',
          ''curl http://localhost:3000/users'',
          '''',
          ''# Create a user'',
          ''curl -X POST http://localhost:3000/users '' @ backslash,
          ''  -H "Content-Type: application/json" '' @ backslash,
          ''  -d '{"name":"John Doe","email":"john@example.com"}'' @ squote,
          ''```'',
          '''',
          ''## '' @ memo @ '' Environment Variables'',
          '''',
          ''Edit `.env` to configure your application:'',
          '''',
          ''```env'',
          ''PORT=3000'',
          ''NODE_ENV=development'',
          ''DATABASE_URL="file:./dev.db"'',
          ''```'',
          '''',
          ''## '' @ hammer_and_wrench @ variation_selector @ '' Technology Stack'',
          '''',
          ''- **Express.js** - Fast, minimalist web framework'']
       @ (if ts
          then [''- **TypeScript** - Type-safe JavaScript'']
          else [])
       @ (if ts
          then [''- **tsx** - TypeScript execution engine'']
          else [])
       @ [''- **Prisma** - Next-generation ORM'',
          ''- **SQLite** - Default database (easily swappable)'',
          ''- **express-async-handler** - Async error handling'',
          '''',
          ''## '' @ books @ '' Learn More'',
          '''',
          ''- [Kickpress Documentation](https://github.com/clebertmarctyson/kickpress#readme)'',
          ''- [Express.js Docs](https://expressjs.com/)'',
          ''- [Prisma Docs](https://www.prisma.io/docs)'']
       @ (if ts
          then [''- [TypeScript Docs](https://www.typescriptlang.org/)'']
          else [])
       @ ['''',
          ''## '' @ bug @ '' Troubleshooting'',
          '''',
          ''### Port already in use'',
          ''Change the port in `.env`:'',
          ''```env'',
          ''PORT=3001'',
          ''```'',
          '''',
          ''### Prisma Client errors'',
          ''Regenerate the Prisma client:'',
          ''```bash'',
          runCmd @ '' db:generate'',
          ''```'']
       @ (if pm = ''pnpm''
          then ['''',
                ''### Module not found errors (pnpm)'',
                ''Make sure you've approved native builds:'',
                ''```bash'',
                ''pnpm approve-builds'',
                ''# Select: better-sqlite3'',
                ''```'']
          else [])
       @ ['''',
          ''## '' @ speech_balloon @ '' Support'',
          '''',
          ''- '' @ bug @ '' [Report Issues](https://github.com/clebertmarctyson/kickpress/issues)'',
          ''- '' @ light_bulb @ '' [Request Features](https://github.com/clebertmarctyson/kickpress/issues/new)'',
          ''- '' @ e_mail @ '' Email: contact@marctysonclebert.com'',
          '''',
          ''---'',
          '''',
          ''Made with '' @ hot_beverage @ '' and '' @ heavy_black_heart @ variation_selector @ '' by [Marc Tyson CLEBERT](https://www.marctysonclebert.com)'']\<close>

definition generateReadme :: "string \<Rightarrow> bool \<Rightarrow> string \<Rightarrow> string" where
  "generateReadme name ts packageManager =
     (let pm = packageManager;
          runCmd = (if pm = ''npm'' then ''npm run'' else pm)
      in unlines (readme_lines name ts pm runCmd))"

section \<open>Paths\<close>

text \<open>
  \<^verbatim>\<open>path.join\<close> of Node.js on POSIX joins its non-empty arguments with a slash and
  normalises the result: empty segments and \<^verbatim>\<open>.\<close> are dropped, \<^verbatim>\<open>..\<close> removes the segment
  before it, and only a relative path may keep a leading \<^verbatim>\<open>..\<close>. A normalised path is kept
  here as the flag "absolute" and the list of its segments, which determine the
  string that \<^verbatim>\<open>path.join\<close> returns up to a trailing slash.
\<close>

type_synonym path = "bool \<times> string list"

definition norm_step :: "bool \<Rightarrow> string list \<Rightarrow> string \<Rightarrow> string list" where
  "norm_step allowAboveRoot res seg =
     (if seg = [] \<or> seg = ''.'' then res
      else if seg = ''..'' then
        (if res \<noteq> [] \<and> last res \<noteq> ''..'' then butlast res
         else if allowAboveRoot then res @ [''..'']
         else res)
      else res @ [seg])"

definition normalizeString :: "string \<Rightarrow> bool \<Rightarrow> string list" where
  "normalizeString p allowAboveRoot = foldl (norm_step allowAboveRoot) [] (split_on CHR ''/'' p)"

definition isAbsolute :: "string \<Rightarrow> bool" where
  "isAbsolute p = (p \<noteq> [] \<and> hd p = CHR ''/'')"

definition normalize :: "string \<Rightarrow> path" where
  "normalize p = (isAbsolute p, normalizeString p (\<not> isAbsolute p))"

definition join :: "string list \<Rightarrow> path" where
  "join args = normalize (join_with ''/'' (filter (\<lambda>arg. arg \<noteq> []) args))"

text \<open>\<^verbatim>\<open>path.dirname\<close>: the root and the current directory are their own parents.\<close>

definition dirname :: "path \<Rightarrow> path" where
  "dirname p = (fst p, butlast (snd p))"

section \<open>The file system\<close>

text \<open>
  The directories and the files that exist, each file with its content. The two
  calls the generator makes fail as Node.js reports it: a recursive \<^verbatim>\<open>mkdirSync\<close> only
  when a component of the path is a file, \<^verbatim>\<open>writeFileSync\<close> when the target is a
  directory or its parent directory does not exist. Permissions and the capacity of
  the disk are outside this model.
\<close>

datatype fs_error = ENOENT | ENOTDIR | EISDIR | EEXIST

record filesystem =
  dirs :: "path set"
  files :: "path \<rightharpoonup> string"

definition is_dir :: "filesystem \<Rightarrow> path \<Rightarrow> bool" where
  "is_dir fs p = (snd p = [] \<or> p \<in> dirs fs)"

definition ancestors :: "path \<Rightarrow> path list" where
  "ancestors p = map (Pair (fst p)) (prefixes (snd p))"

definition mkdirSync :: "path \<Rightarrow> filesystem \<Rightarrow> fs_error + filesystem" where
  "mkdirSync p fs =
     (if files fs p \<noteq> None then Inl EEXIST
      else if \<exists>q \<in> set (ancestors p). files fs q \<noteq> None then Inl ENOTDIR
      else Inr (fs\<lparr>dirs := dirs fs \<union> set (ancestors p)\<rparr>))"

definition writeFileSync :: "path \<Rightarrow> string \<Rightarrow> filesystem \<Rightarrow> fs_error + filesystem" where
  "writeFileSync p data fs =
     (if is_dir fs p then Inl EISDIR
      else if files fs (dirname p) \<noteq> None then Inl ENOTDIR
      else if \<not> is_dir fs (dirname p) then Inl ENOENT
      else Inr (fs\<lparr>files := (files fs)(p \<mapsto> data)\<rparr>))"

text \<open>Statements in sequence: the first call that throws ends the run.\<close>

fun forEach :: "('a \<Rightarrow> 's \<Rightarrow> 'e + 's) \<Rightarrow> 'a list \<Rightarrow> 's \<Rightarrow> 'e + 's" where
  "forEach f [] s = Inr s"
| "forEach f (x # xs) s = (case f x s of Inl e \<Rightarrow> Inl e | Inr s' \<Rightarrow> forEach f xs s')"

section \<open>The directory plan\<close>

definition folders :: "string list" where
  "folders =
     [''src'',
      ''src/controllers'',
      ''src/models'',
      ''src/routes'',
      ''src/middlewares'',
      ''src/config'',
      ''src/utils'',
      ''src/lib'',
      ''src/types'',
      ''public'',
      ''prisma'',
      ''requests'']"

definition createProjectStructure :: "string \<Rightarrow> filesystem \<Rightarrow> fs_error + filesystem" where
  "createProjectStructure projectPath' =
     forEach (\<lambda>folder. mkdirSync (join [projectPath', folder])) folders"

section \<open>Writing the files\<close>

text \<open>
  The calls of \<^verbatim>\<open>writeFileSync\<close> that \<^verbatim>\<open>writeProjectFiles\<close> makes, in the order of
  the source, each with its path and its content.
\<close>

definition writes :: "ProjectConfig \<Rightarrow> string \<Rightarrow> (path \<times> string) list" where
  "writes config packageManager =
     (let extension = (if typescript config then ''ts'' else ''js'') in
      [(join [projectPath config, ''package.json''],
          JSON_stringify (generatePackageJson config) 2),
       (join [projectPath config, ''src'', ''index.'' @ extension],
          generateIndexFile (typescript config)),
       (join [projectPath config, ''src'', ''lib'', ''prisma.'' @ extension],
          generatePrismaClient (typescript config)),
       (join [projectPath config, ''src'', ''middlewares'', ''error.middleware.'' @ extension],
          generateErrorMiddleware (typescript config)),
       (join [projectPath config, ''prisma'', ''schema.prisma''], generatePrismaSchema),
       (join [projectPath config, ''prisma.config.ts''], generatePrismaConfig)]
      @ (if typescript config
         then [(join [projectPath config, ''tsconfig.json''], generateTsConfig)]
         else [])
      @ [(join [projectPath config, ''.env''], generateEnvFile (database config)),
         (join [projectPath config, ''.gitignore''], generateGitignore),
         (join [projectPath config, ''README.md''],
            generateReadme (projectName config) (typescript config) packageManager)])"

definition writeProjectFiles :: "ProjectConfig \<Rightarrow> string \<Rightarrow> filesystem \<Rightarrow> fs_error + filesystem" where
  "writeProjectFiles config packageManager =
     forEach (\<lambda>w. writeFileSync (fst w) (snd w)) (writes config packageManager)"

definition empty_fs :: filesystem where
  "empty_fs = \<lparr>dirs = {}, files = Map.empty\<rparr>"

section \<open>The generated error handler\<close>

text \<open>
  The function \<^verbatim>\<open>errorHandler\<close> that the text of \<^const>\<open>generateErrorMiddleware\<close> defines,
  in each language mode, read as a program. It is given the thrown value, the status
  code the response holds and \<^verbatim>\<open>process.env.NODE_ENV\<close>; it answers with a status code and
  a JSON body. Of the thrown value it reads \<^verbatim>\<open>message\<close>, \<^verbatim>\<open>stack\<close>, \<^verbatim>\<open>code\<close>, the two
  properties of \<^verbatim>\<open>meta\<close>, and whether it is an instance of
  \<^verbatim>\<open>Prisma.PrismaClientKnownRequestError\<close>; a property that is absent is \<open>None\<close>.
\<close>

record thrown =
  err_message :: string
  err_stack :: string
  err_code :: "string option"
  err_meta_target :: "string option"
  err_meta_cause :: "string option"
  err_known_request_error :: bool

text \<open>A value inside a template literal: \<^verbatim>\<open>undefined\<close> is written out.\<close>

definition interpolate :: "string option \<Rightarrow> string" where
  "interpolate v = (case v of None \<Rightarrow> ''undefined'' | Some s \<Rightarrow> s)"

text \<open>
  The two assignments inside the branches update the pair of \<^verbatim>\<open>statusCode\<close> and
  \<^verbatim>\<open>message\<close>; the call \<^verbatim>\<open>res.status(statusCode).json(...)\<close> is the result.
\<close>

definition errorHandler_ts :: "thrown \<Rightarrow> int \<Rightarrow> string option \<Rightarrow> int \<times> json" where
  "errorHandler_ts err res_statusCode NODE_ENV =
     (let statusCode = (if res_statusCode \<noteq> 200 then res_statusCode else 500);
          message = err_message err;
          (statusCode, message) =
            (if err_known_request_error err then
               if err_code err = Some ''P2002'' then
                 (409, ''Duplicate field value: '' @ interpolate (err_meta_target err))
               else if err_code err = Some ''P2025'' then
                 (404, ''Resource not found: '' @ interpolate (err_meta_cause err))
               else (statusCode, message)
             else (statusCode, message))
      in (statusCode,
          JObject
            [(''message'', JString message),
             (''stack'', if NODE_ENV = Some ''production'' then JNull
                         else JString (err_stack err))]))"

definition errorHandler_js :: "thrown \<Rightarrow> int \<Rightarrow> string option \<Rightarrow> int \<times> json" where
  "errorHandler_js err res_statusCode NODE_ENV =
     (let statusCode = (if res_statusCode \<noteq> 200 then res_statusCode else 500);
          message = err_message err;
          (statusCode, message) =
            (if err_code err = Some ''P2002'' then
               (409, ''Duplicate field value: '' @ interpolate (err_meta_target err))
             else if err_code err = Some ''P2025'' then
               (404, ''Resource not found: '' @ interpolate (err_meta_cause err))
             else (statusCode, message))
      in (statusCode,
          JObject
            [(''message'', JString message),
             (''stack'', if NODE_ENV = Some ''production'' then JNull
                         else JString (err_stack err))]))"

definition errorHandler :: "bool \<Rightarrow> thrown \<Rightarrow> int \<Rightarrow> string option \<Rightarrow> int \<times> json" where
  "errorHandler ts = (if ts then errorHandler_ts else errorHandler_js)"

section \<open>Vocabulary of the specification\<close>

text \<open>
  The configuration of the example scenario, the keys of one table of the manifest
  (\<^verbatim>\<open>scripts\<close>, \<^verbatim>\<open>dependencies\<close>, \<^verbatim>\<open>devDependencies\<close>), and the packages that hold type
  definitions: those of the \<^verbatim>\<open>@types\<close> scope.
\<close>

definition demo_config :: ProjectConfig where
  "demo_config =
     \<lparr>projectName = ''demo-api'', projectPath = ''/tmp/demo-api'', typescript = True,
      database = ''sqlite'', template = ''default''\<rparr>"

definition package_keys :: "string \<Rightarrow> ProjectConfig \<Rightarrow> string list" where
  "package_keys table config =
     (case json_field table (generatePackageJson config) of
        None \<Rightarrow> []
      | Some v \<Rightarrow> json_keys v)"

definition type_definition_package :: "string \<Rightarrow> bool" where
  "type_definition_package k = prefix ''@types/'' k"

text \<open>
  The section of the documentation on the approval of native builds: the lines that
  the first interpolation of the template holds for \<^verbatim>\<open>pnpm\<close>.
\<close>

definition approve_builds_heading :: string where
  "approve_builds_heading =
     ''### '' @ warning_sign @ variation_selector
       @ '' Important: Approve Native Builds (pnpm only)''"

definition approve_builds_section :: "string list" where
  "approve_builds_section =
     [approve_builds_heading,
      '''',
      ''Before running the project, you need to approve native dependencies:'',
      '''',
      ''```bash'',
      ''pnpm approve-builds'',
      ''# Select: better-sqlite3 (press space, then enter)'',
      ''```'',
      '''',
      ''This is a one-time setup required by pnpm for native dependencies.'',
      '''',
      ''---'',
      '''']"

text \<open>
  Two thrown values: an error of the Prisma client for a violated unique constraint,
  and a value that carries the same code without being an instance of the class.
\<close>

definition duplicate_error :: thrown where
  "duplicate_error =
     \<lparr>err_message = ''Unique constraint failed'',
      err_stack = ''Error: Unique constraint failed'',
      err_code = Some ''P2002'', err_meta_target = Some ''email'', err_meta_cause = None,
      err_known_request_error = True\<rparr>"

definition forged_error :: thrown where
  "forged_error =
     \<lparr>err_message = ''boom'', err_stack = ''Error: boom'', err_code = Some ''P2002'',
      err_meta_target = None, err_meta_cause = None, err_known_request_error = False\<rparr>"

text \<open>
  A project name that carries a line feed followed by the text of that section.
\<close>

definition spoofing_name :: string where
  "spoofing_name = ''x'' @ newline # butlast (unlines approve_builds_section)"

text \<open>
  The command examples of the documentation that invoke the package manager, for an
  installation prefix and a prefix of the other commands: the quick start from the
  installation to the development server, the tables of the available commands, and
  the regeneration of the client in the troubleshooting section.
\<close>

definition quick_start :: "string \<Rightarrow> string \<Rightarrow> string list" where
  "quick_start pm runCmd =
     [''```bash'',
      pm @ '' install'',
      ''```'',
      '''',
      ''### 2. Setup Database'',
      '''',
      ''```bash'',
      ''# Generate Prisma Client'',
      runCmd @ '' db:generate'',
      '''',
      ''# Push schema to database'',
      runCmd @ '' db:push'',
      ''```'',
      '''',
      ''### 3. Start Development Server'',
      '''',
      ''```bash'',
      runCmd @ '' dev'',
      ''```'']"

definition command_table :: "bool \<Rightarrow> string \<Rightarrow> string list" where
  "command_table ts runCmd =
     [''### Development'',
      ''- `'' @ runCmd @ '' dev` - Start development server with hot reload'',
      '''']
     @ (if ts
        then [''### Build'',
              ''- `'' @ runCmd @ '' build` - Compile TypeScript to JavaScript'',
              ''- `'' @ runCmd @ '' start` - Start production server'',
              '''']
        else [''### Production'',
              ''- `'' @ runCmd @ '' start` - Start production server'',
              ''''])
     @ [''### Database Management'',
        ''- `'' @ runCmd @ '' db:generate` - Generate Prisma Client'',
        ''- `'' @ runCmd @ '' db:push` - Push schema changes to database'',
        ''- `'' @ runCmd @ '' db:migrate` - Create a new migration'',
        ''- `'' @ runCmd @ '' db:studio` - Open Prisma Studio (database GUI)'',
        '''']"

definition regenerate_client :: "string \<Rightarrow> string list" where
  "regenerate_client runCmd =
     [''### Prisma Client errors'',
      ''Regenerate the Prisma client:'',
      ''```bash'',
      runCmd @ '' db:generate'',
      ''```'']"

text \<open>
  The lines inside the fenced blocks of a document that are marked \<^verbatim>\<open>bash\<close>, and the
  examples among them in the documentation that do not invoke the package manager.
\<close>

fun code_lines :: "bool \<Rightarrow> string list \<Rightarrow> string list" where
  "code_lines inside [] = []"
| "code_lines inside (l # ls) =
     (if inside then (if l = ''```'' then code_lines False ls else l # code_lines True ls)
      else (if l = ''```bash'' then code_lines True ls else code_lines False ls))"

definition fixed_examples :: "string list" where
  \<open>fixed_examples =
     [''# Generate everything (routes, controller, model, types, HTTP requests)'',
      ''npx kickpress make user resources'',
      ''npx kickpress gen post resources     # Short alias'',
      '''',
      ''# Generate individual components'',
      ''npx kickpress make user model'',
      ''npx kickpress make user controller'',
      ''npx kickpress make user routes'',
      ''# Get all users'',
      ''curl http://localhost:3000/users'',
      '''',
      ''# Create a user'',
      ''curl -X POST http://localhost:3000/users '' @ backslash,
      ''  -H "Content-Type: application/json" '' @ backslash,
      ''  -d '{"name":"John Doe","email":"john@example.com"}'' @ squote]\<close>

section \<open>Lines, paths and the file system\<close>

lemma split_on_nonempty: "split_on c s \<noteq> []"
  by (induction s) (auto split: list.splits)

lemma split_on_append: "split_on c (a @ c # b) = split_on c a @ split_on c b"
  by (induction a) (auto split: list.splits simp: split_on_nonempty)

lemma split_on_free: "c \<notin> set l \<Longrightarrow> split_on c l = [l]"
  by (induction l) auto

lemma lines_of_unlines: "\<forall>l \<in> set ls. newline \<notin> set l \<Longrightarrow> lines_of (unlines ls) = ls @ [[]]"
  unfolding lines_of_def unlines_def
  by (induction ls) (auto simp: split_on_append split_on_free)

lemma split_join: "xs \<noteq> [] \<Longrightarrow> split_on c (join_with [c] xs) = concat (map (split_on c) xs)"
  by (induction "[c]" xs rule: join_with.induct) (auto simp: split_on_append)

lemma norm_step_empty [simp]: "norm_step b res [] = res"
  by (simp add: norm_step_def)

lemma foldl_norm_filter:
  "foldl (norm_step b) res (concat (map (split_on c) (filter (\<lambda>a. a \<noteq> []) xs)))
   = foldl (norm_step b) res (concat (map (split_on c) xs))"
  by (induction xs arbitrary: res) auto

lemma isAbsolute_join_with:
  "\<forall>a \<in> set ys. a \<noteq> [] \<Longrightarrow>
   isAbsolute (join_with ''/'' ys) = (case ys of [] \<Rightarrow> False | a # _ \<Rightarrow> isAbsolute a)"
  by (cases "(''/'', ys)" rule: join_with.cases) (auto simp: isAbsolute_def)

lemma isAbsolute_join:
  "isAbsolute (join_with ''/'' (filter (\<lambda>a. a \<noteq> []) xs)) = (case filter (\<lambda>a. a \<noteq> []) xs of [] \<Rightarrow> False | a # _ \<Rightarrow> isAbsolute a)"
  by (rule isAbsolute_join_with) simp

lemma join_segments:
  "join args = (let xs = filter (\<lambda>a. a \<noteq> []) args; abs = (case xs of [] \<Rightarrow> False | a # _ \<Rightarrow> isAbsolute a)
       in (abs, foldl (norm_step (\<not> abs)) [] (concat (map (split_on CHR ''/'') args))))"
proof (cases "filter (\<lambda>a. a \<noteq> []) args = []")
  case True
  then have "concat (map (split_on CHR ''/'') args) = map (\<lambda>_. []) args"
    by (induction args) (auto split: if_splits)
  moreover have "foldl (norm_step b) res (map (\<lambda>_. []) args) = res" for b res
    by (induction args) auto
  ultimately show ?thesis using True
    by (simp add: join_def normalize_def normalizeString_def isAbsolute_def)
next
  case False
  then show ?thesis
    using foldl_norm_filter[of _ "[]" "CHR ''/''" args]
    by (simp add: join_def normalize_def normalizeString_def isAbsolute_join split_join Let_def)
qed


lemma join_root:
  "\<forall>a \<in> set args. a \<noteq> [] \<and> \<not> isAbsolute a \<Longrightarrow>
   join (P # args) = (isAbsolute P, foldl (norm_step (\<not> isAbsolute P)) (normalizeString P (\<not> isAbsolute P)) (concat (map (split_on CHR ''/'') args)))"
  by (cases args) (auto simp: join_segments Let_def normalizeString_def isAbsolute_def)


lemma mem_ancestors: "(b, q) \<in> set (ancestors (a, xs)) \<longleftrightarrow> b = a \<and> prefix q xs"
  by (auto simp: ancestors_def in_set_prefixes)

lemma forEach_mkdir_Inr:
  "forEach (\<lambda>x. mkdirSync (g x)) xs fs = Inr fs' \<Longrightarrow>
   dirs fs' = dirs fs \<union> (\<Union>x\<in>set xs. set (ancestors (g x))) \<and> files fs' = files fs"
proof (induction xs arbitrary: fs)
  case Nil
  then show ?case by simp
next
  case (Cons x xs)
  then obtain fs1 where 1: "mkdirSync (g x) fs = Inr fs1" and 2: "forEach (\<lambda>x. mkdirSync (g x)) xs fs1 = Inr fs'"
    by (auto split: sum.splits)
  from 1 have "dirs fs1 = dirs fs \<union> set (ancestors (g x))" "files fs1 = files fs"
    by (auto simp: mkdirSync_def split: if_splits)
  with Cons.IH[OF 2] show ?case by auto
qed

lemma forEach_mkdir_succeeds:
  "files fs = Map.empty \<Longrightarrow> \<exists>fs'. forEach (\<lambda>x. mkdirSync (g x)) xs fs = Inr fs'"
proof (induction xs arbitrary: fs)
  case Nil
  then show ?case by simp
next
  case (Cons x xs)
  have "files (fs\<lparr>dirs := dirs fs \<union> set (ancestors (g x))\<rparr>) = Map.empty"
    using Cons.prems by simp
  from Cons.IH[OF this] show ?case
    using Cons.prems by (simp add: mkdirSync_def)
qed

lemma forEach_write_Inr:
  "forEach (\<lambda>w. writeFileSync (fst w) (snd w)) ws fs = Inr fs' \<Longrightarrow>
   dirs fs' = dirs fs \<and> files fs' = files fs ++ map_of (rev ws)"
proof (induction ws arbitrary: fs)
  case Nil
  then show ?case by simp
next
  case (Cons w ws)
  then obtain fs1 where 1: "writeFileSync (fst w) (snd w) fs = Inr fs1"
    and 2: "forEach (\<lambda>w. writeFileSync (fst w) (snd w)) ws fs1 = Inr fs'"
    by (auto split: sum.splits)
  from 1 have "dirs fs1 = dirs fs" "files fs1 = (files fs)(fst w \<mapsto> snd w)"
    by (auto simp: writeFileSync_def split: if_splits)
  with Cons.IH[OF 2] show ?case
    by (cases w) (simp add: map_add_def fun_eq_iff split: option.splits)
qed

lemma forEach_write_succeeds:
  assumes "\<forall>w\<in>set ws. \<not> is_dir fs (fst w) \<and> is_dir fs (dirname (fst w))
                      \<and> files fs (dirname (fst w)) = None"
    and "\<forall>w\<in>set ws. \<forall>v\<in>set ws. dirname (fst w) \<noteq> fst v"
  shows "\<exists>fs'. forEach (\<lambda>w. writeFileSync (fst w) (snd w)) ws fs = Inr fs'"
  using assms
proof (induction ws arbitrary: fs)
  case Nil
  then show ?case by simp
next
  case (Cons w ws)
  let ?fs1 = "fs\<lparr>files := (files fs)(fst w \<mapsto> snd w)\<rparr>"
  have 1: "writeFileSync (fst w) (snd w) fs = Inr ?fs1"
    using Cons.prems(1) by (simp add: writeFileSync_def)
  have "\<forall>v\<in>set ws. \<not> is_dir ?fs1 (fst v) \<and> is_dir ?fs1 (dirname (fst v))
                      \<and> files ?fs1 (dirname (fst v)) = None"
    using Cons.prems by (auto simp: is_dir_def)
  moreover have "\<forall>v\<in>set ws. \<forall>u\<in>set ws. dirname (fst v) \<noteq> fst u"
    using Cons.prems(2) by simp
  ultimately obtain fs' where "forEach (\<lambda>w. writeFileSync (fst w) (snd w)) ws ?fs1 = Inr fs'"
    using Cons.IH by blast
  with 1 show ?case by simp
qed

lemma writes_paths:
  "map fst (writes c pm) =
     (let P = projectPath c; A = isAbsolute P; N = normalizeString P (\<not> A);
          e = (if typescript c then ''ts'' else ''js'') in
      [(A, N @ [''package.json'']),
       (A, N @ [''src'', ''index.'' @ e]),
       (A, N @ [''src'', ''lib'', ''prisma.'' @ e]),
       (A, N @ [''src'', ''middlewares'', ''error.middleware.'' @ e]),
       (A, N @ [''prisma'', ''schema.prisma'']),
       (A, N @ [''prisma.config.ts''])]
      @ (if typescript c then [(A, N @ [''tsconfig.json''])] else [])
      @ [(A, N @ [''.env'']), (A, N @ [''.gitignore'']), (A, N @ [''README.md''])])"
  by (simp add: writes_def Let_def join_root isAbsolute_def norm_step_def)

lemma planned_dirs:
  "(\<Union>f\<in>set folders. set (ancestors (join [P, f]))) =
     {(a, q). a = isAbsolute P \<and>
        (\<exists>d \<in> set [[''src'', ''controllers''], [''src'', ''models''], [''src'', ''routes''],
                      [''src'', ''middlewares''], [''src'', ''config''], [''src'', ''utils''],
                      [''src'', ''lib''], [''src'', ''types''], [''public''], [''prisma''],
                      [''requests'']]. prefix q (normalizeString P (\<not> isAbsolute P) @ d))}"
  by (auto simp: folders_def join_root isAbsolute_def norm_step_def mem_ancestors)


lemma fresh_run:
  "\<exists>fs1 fs2. createProjectStructure (projectPath c) empty_fs = Inr fs1
      \<and> writeProjectFiles c pm fs1 = Inr fs2
      \<and> dirs fs2 = (\<Union>f\<in>set folders. set (ancestors (join [projectPath c, f])))
      \<and> files fs2 = map_of (rev (writes c pm))"
proof -
  let ?P = "projectPath c"
  obtain fs1 where 1: "createProjectStructure ?P empty_fs = Inr fs1"
    unfolding createProjectStructure_def
    using forEach_mkdir_succeeds[of empty_fs "\<lambda>f. join [?P, f]" folders]
    by (auto simp: empty_fs_def)
  then have d1: "dirs fs1 = (\<Union>f\<in>set folders. set (ancestors (join [?P, f])))"
    and f1: "files fs1 = Map.empty"
    unfolding createProjectStructure_def
    using forEach_mkdir_Inr[of "\<lambda>f. join [?P, f]" folders empty_fs fs1]
    by (auto simp: empty_fs_def)
  have a: "\<forall>w\<in>set (writes c pm). \<not> is_dir fs1 (fst w) \<and> is_dir fs1 (dirname (fst w))
                      \<and> files fs1 (dirname (fst w)) = None"
  proof -
    have "\<forall>p\<in>set (map fst (writes c pm)). \<not> is_dir fs1 p \<and> is_dir fs1 (dirname p)"
      unfolding writes_paths is_dir_def d1 planned_dirs
      by (simp add: Let_def dirname_def butlast_append)
    then show ?thesis by (simp add: f1)
  qed
  have b: "\<forall>w\<in>set (writes c pm). \<forall>v\<in>set (writes c pm). dirname (fst w) \<noteq> fst v"
  proof -
    have "\<forall>p\<in>set (map fst (writes c pm)). \<forall>q\<in>set (map fst (writes c pm)). dirname p \<noteq> q"
      unfolding writes_paths
      by (simp add: Let_def dirname_def butlast_append)
    then show ?thesis by simp
  qed
  obtain fs2 where 2: "writeProjectFiles c pm fs1 = Inr fs2"
    unfolding writeProjectFiles_def using forEach_write_succeeds[OF a b] by blast
  then have "dirs fs2 = dirs fs1" "files fs2 = files fs1 ++ map_of (rev (writes c pm))"
    unfolding writeProjectFiles_def using forEach_write_Inr by blast+
  with 1 2 d1 f1 show ?thesis by auto
qed

lemma package_keys_simps:
  "package_keys ''scripts'' c = map fst (scripts (typescript c))"
  "package_keys ''dependencies'' c = map fst (dependencies (typescript c))"
  "package_keys ''devDependencies'' c = map fst (devDependencies (typescript c))"
  by (simp_all add: package_keys_def generatePackageJson_def record_json_def comp_def)

lemma map_of_rev_distinct: "distinct (map fst xs) \<Longrightarrow> map_of (rev xs) = map_of xs"
proof (induction xs)
  case Nil
  then show ?case by simp
next
  case (Cons x xs)
  obtain a b where x: "x = (a, b)" by (cases x)
  from Cons.prems x have none: "map_of xs a = None"
    by (simp add: map_of_eq_None_iff)
  from Cons have IH: "map_of (rev xs) = map_of xs" by simp
  show ?case
  proof (rule ext)
    fix k
    show "map_of (rev (x # xs)) k = map_of (x # xs) k"
      using none by (cases "k = a") (simp_all add: x IH map_add_def split: option.splits)
  qed
qed

lemma distinct_writes: "distinct (map fst (writes c pm))"
  unfolding writes_paths by (simp add: Let_def)

lemma fresh_project:
  "\<exists>fs1 fs2. createProjectStructure (projectPath c) empty_fs = Inr fs1
      \<and> writeProjectFiles c pm fs1 = Inr fs2
      \<and> files fs2 = map_of (writes c pm)"
  using fresh_run[of c pm] by (auto simp: map_of_rev_distinct distinct_writes)

lemma writes_simps:
  "writes c pm =
     (let P = projectPath c; A = isAbsolute P; N = normalizeString P (\<not> A);
          e = (if typescript c then ''ts'' else ''js'') in
      [((A, N @ [''package.json'']), JSON_stringify (generatePackageJson c) 2),
       ((A, N @ [''src'', ''index.'' @ e]), generateIndexFile (typescript c)),
       ((A, N @ [''src'', ''lib'', ''prisma.'' @ e]), generatePrismaClient (typescript c)),
       ((A, N @ [''src'', ''middlewares'', ''error.middleware.'' @ e]),
          generateErrorMiddleware (typescript c)),
       ((A, N @ [''prisma'', ''schema.prisma'']), generatePrismaSchema),
       ((A, N @ [''prisma.config.ts'']), generatePrismaConfig)]
      @ (if typescript c then [((A, N @ [''tsconfig.json'']), generateTsConfig)] else [])
      @ [((A, N @ [''.env'']), generateEnvFile (database c)),
         ((A, N @ [''.gitignore'']), generateGitignore),
         ((A, N @ [''README.md'']), generateReadme (projectName c) (typescript c) pm)])"
  by (simp add: writes_def Let_def join_root isAbsolute_def norm_step_def)

lemma join_simps:
  "join [P] = (isAbsolute P, normalizeString P (\<not> isAbsolute P))"
  "join [P, ''package.json''] = (isAbsolute P, normalizeString P (\<not> isAbsolute P) @ [''package.json''])"
  "join [P, ''prisma.config.ts''] = (isAbsolute P, normalizeString P (\<not> isAbsolute P) @ [''prisma.config.ts''])"
  "join [P, ''tsconfig.json''] = (isAbsolute P, normalizeString P (\<not> isAbsolute P) @ [''tsconfig.json''])"
  "join [P, ''README.md''] = (isAbsolute P, normalizeString P (\<not> isAbsolute P) @ [''README.md''])"
  "join [P, ''src'', ''index.ts''] = (isAbsolute P, normalizeString P (\<not> isAbsolute P) @ [''src'', ''index.ts''])"
  "join [P, ''src'', ''index.js''] = (isAbsolute P, normalizeString P (\<not> isAbsolute P) @ [''src'', ''index.js''])"
  "join [P, ''src'', ''lib'', ''prisma.ts''] = (isAbsolute P, normalizeString P (\<not> isAbsolute P) @ [''src'', ''lib'', ''prisma.ts''])"
  "join [P, ''src'', ''lib'', ''prisma.js''] = (isAbsolute P, normalizeString P (\<not> isAbsolute P) @ [''src'', ''lib'', ''prisma.js''])"
  "join [P, ''src'', ''middlewares'', ''error.middleware.ts''] = (isAbsolute P, normalizeString P (\<not> isAbsolute P) @ [''src'', ''middlewares'', ''error.middleware.ts''])"
  "join [P, ''src'', ''middlewares'', ''error.middleware.js''] = (isAbsolute P, normalizeString P (\<not> isAbsolute P) @ [''src'', ''middlewares'', ''error.middleware.js''])"
  by (simp_all add: join_root isAbsolute_def norm_step_def)

subsection \<open>Lines of the generated texts\<close>

lemma line_in_unlines: "l \<in> set ls \<Longrightarrow> sublist (l @ [newline]) (unlines ls)"
proof (induction ls)
  case Nil
  then show ?case by simp
next
  case (Cons a ls)
  show ?case
  proof (cases "l = a")
    case True
    then show ?thesis by (simp add: unlines_def)
  next
    case False
    with Cons have "sublist (l @ [newline]) (unlines ls)" by simp
    then obtain ps ss where "unlines ls = ps @ (l @ [newline]) @ ss"
      by (auto simp: sublist_def)
    then have "unlines (a # ls) = ((a @ [newline]) @ ps) @ (l @ [newline]) @ ss"
      by (simp add: unlines_def)
    then show ?thesis unfolding sublist_def by blast
  qed
qed

lemma line_sublist: "l \<in> set ls \<Longrightarrow> sublist l (unlines ls)"
proof -
  assume "l \<in> set ls"
  then have "sublist (l @ [newline]) (unlines ls)" by (rule line_in_unlines)
  then obtain ps ss where "unlines ls = ps @ l @ ([newline] @ ss)"
    by (auto simp: sublist_def)
  then show ?thesis unfolding sublist_def by blast
qed

lemma lines_sublist:
  "list_all (\<lambda>l. l \<in> set ls) ls' \<Longrightarrow>
   list_all (\<lambda>l. sublist (l @ [newline]) (unlines ls)) ls'"
  by (auto simp: list_all_iff intro: line_in_unlines)

lemma unlines_append: "unlines (xs @ ys) = unlines xs @ unlines ys"
  by (simp add: unlines_def)

lemma lines_of_unlines_all:
  "list_all (\<lambda>l. newline \<notin> set l) ls \<Longrightarrow> lines_of (unlines ls) = ls @ [[]]"
  by (simp add: lines_of_unlines list_all_iff)

lemma not_suffix_neq: "\<not> suffix s xs \<Longrightarrow> (xs = v @ s) = False"
  by (auto simp: suffix_def)

lemma generateReadme_unlines:
  "generateReadme name ts pm
   = unlines (readme_lines name ts pm (if pm = ''npm'' then ''npm run'' else pm))"
  by (simp add: generateReadme_def Let_def)

lemma readme_lines_newline_free:
  "newline \<notin> set name \<Longrightarrow> newline \<notin> set pm \<Longrightarrow> newline \<notin> set runCmd \<Longrightarrow>
   list_all (\<lambda>l. newline \<notin> set l) (readme_lines name ts pm runCmd)"
  by (simp add: readme_lines_def)

lemma lines_of_readme:
  assumes "newline \<notin> set name" and "newline \<notin> set pm"
  shows "lines_of (generateReadme name ts pm)
         = readme_lines name ts pm (if pm = ''npm'' then ''npm run'' else pm) @ [[]]"
proof -
  have "newline \<notin> set (if pm = ''npm'' then ''npm run'' else pm)"
    using assms by simp
  from readme_lines_newline_free[OF assms this] show ?thesis
    by (simp add: generateReadme_def Let_def lines_of_unlines_all)
qed

lemma approve_line_absent:
  "pm \<noteq> ''pnpm'' \<Longrightarrow> ''pnpm approve-builds'' \<notin> set (readme_lines name ts pm runCmd)"
  by (simp add: readme_lines_def not_suffix_neq suffix_to_prefix)

lemma approve_line_present:
  "''pnpm approve-builds'' \<in> set (readme_lines name ts ''pnpm'' runCmd)"
  by (simp add: readme_lines_def)

lemma approve_heading_absent:
  "pm \<noteq> ''pnpm'' \<Longrightarrow> approve_builds_heading \<notin> set (readme_lines name ts pm runCmd)"
  by (simp add: readme_lines_def approve_builds_heading_def not_suffix_neq suffix_to_prefix)

lemma approve_heading_present:
  "approve_builds_heading \<in> set (readme_lines name ts ''pnpm'' runCmd)"
  by (simp add: readme_lines_def approve_builds_heading_def)

lemma section_in_readme:
  "sublist (unlines approve_builds_section) (generateReadme name ts ''pnpm'')"
proof -
  obtain before after where
    "readme_lines name ts ''pnpm'' ''pnpm'' = before @ approve_builds_section @ after"
    unfolding readme_lines_def approve_builds_section_def approve_builds_heading_def
    by (simp only: refl if_True)
  then show ?thesis
    by (simp add: generateReadme_unlines unlines_append)
qed

lemma readme_command_lines:
  "list_all (\<lambda>l. l \<in> set (readme_lines name ts pm runCmd))
       ([pm @ '' install'',
         runCmd @ '' db:generate'',
         runCmd @ '' db:push'',
         runCmd @ '' dev'',
         ''- `'' @ runCmd @ '' dev` - Start development server with hot reload'',
         ''- `'' @ runCmd @ '' start` - Start production server'',
         ''- `'' @ runCmd @ '' db:generate` - Generate Prisma Client'',
         ''- `'' @ runCmd @ '' db:push` - Push schema changes to database'',
         ''- `'' @ runCmd @ '' db:migrate` - Create a new migration'',
         ''- `'' @ runCmd @ '' db:studio` - Open Prisma Studio (database GUI)'']
        @ (if ts then [''- `'' @ runCmd @ '' build` - Compile TypeScript to JavaScript''] else []))"
  unfolding readme_lines_def
  by (cases ts)
     (simp_all only: list.pred_inject list_all_append set_append set_simps Un_iff insert_iff
        if_True if_False HOL.simp_thms)

lemma demo_readme: "sublist ''pnpm approve-builds'' (generateReadme ''demo-api'' True ''pnpm'')"
proof -
  have "generateReadme ''demo-api'' True ''pnpm''
        = unlines (readme_lines ''demo-api'' True ''pnpm'' ''pnpm'')"
    by (simp add: generateReadme_unlines)
  then show ?thesis
    by (simp only:) (rule line_sublist [OF approve_line_present])
qed

lemma index_ts_import:
  \<open>''import errorHandler from "./middlewares/error.middleware";''
     \<in> set (lines_of (generateIndexFile True))\<close>
  by (simp add: generateIndexFile_def lines_of_unlines_all)

lemma index_ts_no_suffix: "\<not> sublist ''error.middleware.'' (generateIndexFile True)"
  by (simp add: generateIndexFile_def unlines_def sublist_code prefix_code)

lemma error_middleware_text:
  \<open>''  if (err instanceof Prisma.PrismaClientKnownRequestError) {''
     \<in> set (lines_of (generateErrorMiddleware True))\<close>
  \<open>''    if (err.code === "P2002") {'' \<in> set (lines_of (generateErrorMiddleware True))\<close>
  \<open>''    } else if (err.code === "P2025") {'' \<in> set (lines_of (generateErrorMiddleware True))\<close>
  \<open>''  if (err.code === "P2002") {'' \<in> set (lines_of (generateErrorMiddleware False))\<close>
  \<open>''  } else if (err.code === "P2025") {'' \<in> set (lines_of (generateErrorMiddleware False))\<close>
  by (simp_all add: generateErrorMiddleware_def lines_of_unlines_all)

lemma error_middleware_js_unguarded:
  "\<not> sublist ''instanceof'' (generateErrorMiddleware False)"
  by (simp add: generateErrorMiddleware_def unlines_def sublist_code prefix_code)

subsection \<open>Reading the generated JSON back\<close>

lemma gap2: "replicate 2 c = [c, c]"
  by (simp add: numeral_2_eq_2)

lemma parse_tsconfig: "JSON_parse generateTsConfig = Some tsconfig"
  by (simp add: JSON_parse_def generateTsConfig_def tsconfig_def JSON_stringify_def gap2 QuoteJSONString_def quote_char_def emit_def unescape_char_def Let_def)

lemma parse_demo_manifest:
  "JSON_parse (JSON_stringify (generatePackageJson demo_config) 2) = Some (generatePackageJson demo_config)"
  by (simp add: JSON_parse_def generatePackageJson_def demo_config_def record_json_def scripts_def dependencies_def devDependencies_def base_dependencies_def base_devDependencies_def JSON_stringify_def gap2 QuoteJSONString_def quote_char_def emit_def unescape_char_def Let_def)

subsection \<open>The directory plan\<close>

lemma forEach_mkdir_planned:
  "createProjectStructure P fs = Inr fs' \<Longrightarrow>
   dirs fs' = dirs fs \<union> (\<Union>f\<in>set folders. set (ancestors (join [P, f]))) \<and> files fs' = files fs"
  unfolding createProjectStructure_def by (rule forEach_mkdir_Inr)

lemma self_ancestor: "p \<in> set (ancestors p)"
  by (cases p) (simp add: mem_ancestors)

subsection \<open>Blocks of lines\<close>

lemma readme_first_line:
  "\<exists>rest. readme_lines name ts pm runCmd = (''# '' @ name) # rest"
  unfolding readme_lines_def by (simp only: append_Cons) blast

lemma unlines_snoc: "a \<noteq> [] \<Longrightarrow> \<exists>x. unlines a = x @ [newline]"
proof -
  assume "a \<noteq> []"
  then obtain b l where "a = b @ [l]" by (metis rev_exhaust)
  then have "unlines a = (unlines b @ l) @ [newline]" by (simp add: unlines_def)
  then show ?thesis by blast
qed

lemma block_line:
  assumes "sublist (unlines (a @ l # b)) t" and "a \<noteq> []" and "newline \<notin> set l"
  shows "l \<in> set (lines_of t)"
proof -
  obtain x where x: "unlines a = x @ [newline]" using unlines_snoc[OF assms(2)] by blast
  obtain ps ss where "t = ps @ unlines (a @ l # b) @ ss"
    using assms(1) by (auto simp: sublist_def)
  then have "t = (ps @ x) @ newline # (l @ newline # (unlines b @ ss))"
    by (simp add: unlines_append x) (simp add: unlines_def)
  then have "lines_of t = split_on newline (ps @ x) @ [l] @ split_on newline (unlines b @ ss)"
    unfolding lines_of_def by (simp only: split_on_append split_on_free[OF assms(3)])
  then show ?thesis by simp
qed

lemma unlines_Cons: "unlines (l # ls) = l @ newline # unlines ls"
  by (simp add: unlines_def)

lemma sublist_unlines: "sublist b ls \<Longrightarrow> sublist (unlines b) (unlines ls)"
proof -
  assume "sublist b ls"
  then obtain ps ss where "ls = ps @ b @ ss" by (auto simp: sublist_def)
  then have "unlines ls = unlines ps @ unlines b @ unlines ss" by (simp add: unlines_append)
  then show ?thesis unfolding sublist_def by blast
qed

lemma not_suffix_neq': "\<not> suffix s xs \<Longrightarrow> (v @ s = xs) = False"
  by (auto simp: suffix_def)

lemma section_split:
  "approve_builds_section =
     [approve_builds_heading, '''',
      ''Before running the project, you need to approve native dependencies:'', '''', ''```bash'']
     @ ''pnpm approve-builds''
     # [''# Select: better-sqlite3 (press space, then enter)'', ''```'', '''',
        ''This is a one-time setup required by pnpm for native dependencies.'', '''', ''---'', '''']"
  by (simp add: approve_builds_section_def)

lemma section_absent:
  assumes "newline \<notin> set name" and "newline \<notin> set pm" and "pm \<noteq> ''pnpm''"
  shows "\<not> sublist (unlines approve_builds_section) (generateReadme name ts pm)"
proof
  assume "sublist (unlines approve_builds_section) (generateReadme name ts pm)"
  then have "''pnpm approve-builds'' \<in> set (lines_of (generateReadme name ts pm))"
    unfolding section_split by (rule block_line) simp_all
  then show False
    using approve_line_absent[OF assms(3), of name ts] by (simp add: lines_of_readme[OF assms(1,2)])
qed

lemma sublist_skip: "sublist b ys \<Longrightarrow> sublist b (xs @ ys)"
  by (auto simp: sublist_def) (metis append.assoc)

lemma sublist_take: "sublist b xs \<Longrightarrow> sublist b (xs @ ys)"
  by (auto simp: sublist_def) blast

lemma sublist_take3: "sublist b (x @ y @ z) \<Longrightarrow> sublist b (x @ y @ z @ w)"
  using sublist_take[of b "x @ y @ z" w] by simp

lemma quick_start_in_readme:
  "sublist (quick_start pm runCmd) (readme_lines name ts pm runCmd)"
  unfolding readme_lines_def quick_start_def
  apply (rule sublist_skip, rule sublist_skip, rule sublist_skip, rule sublist_skip)
  apply (rule sublist_take)
  apply (simp add: sublist_code prefix_code not_suffix_neq not_suffix_neq' suffix_to_prefix)
  done

lemma command_table_in_readme:
  "sublist (command_table ts runCmd) (readme_lines name ts pm runCmd)"
  unfolding readme_lines_def command_table_def
  apply (rule sublist_skip, rule sublist_skip, rule sublist_skip, rule sublist_skip)
  apply (rule sublist_take3)
  apply (cases ts)
   apply (simp_all add: sublist_code prefix_code not_suffix_neq not_suffix_neq' suffix_to_prefix)
  done

lemma regenerate_client_in_readme:
  "sublist (regenerate_client runCmd) (readme_lines name ts pm runCmd)"
  unfolding readme_lines_def regenerate_client_def
  apply (rule sublist_skip, rule sublist_skip, rule sublist_skip, rule sublist_skip,
         rule sublist_skip, rule sublist_skip, rule sublist_skip, rule sublist_skip,
         rule sublist_skip, rule sublist_skip, rule sublist_skip, rule sublist_skip,
         rule sublist_skip, rule sublist_skip, rule sublist_skip)
  apply (rule sublist_take)
  apply (simp add: sublist_code prefix_code not_suffix_neq not_suffix_neq' suffix_to_prefix)
  done

lemma code_lines_readme:
  "code_lines False (readme_lines name ts pm runCmd @ [[]]) =
     (if pm = ''pnpm''
      then [''pnpm approve-builds'', ''# Select: better-sqlite3 (press space, then enter)'']
      else [])
     @ [pm @ '' install'',
        ''# Generate Prisma Client'',
        runCmd @ '' db:generate'',
        '''',
        ''# Push schema to database'',
        runCmd @ '' db:push'',
        runCmd @ '' dev'']
     @ fixed_examples
     @ [runCmd @ '' db:generate'']
     @ (if pm = ''pnpm'' then [''pnpm approve-builds'', ''# Select: better-sqlite3''] else [])"
  by (cases "pm = ''pnpm''"; cases ts)
     (simp_all add: readme_lines_def fixed_examples_def
        not_suffix_neq not_suffix_neq' suffix_to_prefix)

subsection \<open>The files after a run\<close>

lemma run_files:
  assumes "writeProjectFiles c pm fs = Inr fs'"
  shows "files fs' p = (case map_of (writes c pm) p of None \<Rightarrow> files fs p | Some d \<Rightarrow> Some d)"
proof -
  from assms have "files fs' = files fs ++ map_of (rev (writes c pm))"
    unfolding writeProjectFiles_def using forEach_write_Inr by blast
  then show ?thesis
    by (simp add: map_of_rev_distinct distinct_writes map_add_def)
qed

lemma source_file_writes:
  "map_of (writes c pm) (join [projectPath c, ''package.json''])
     = Some (JSON_stringify (generatePackageJson c) 2)"
  "map_of (writes c pm) (join [projectPath c, ''src'', ''index.ts''])
     = (if typescript c then Some (generateIndexFile True) else None)"
  "map_of (writes c pm) (join [projectPath c, ''src'', ''index.js''])
     = (if typescript c then None else Some (generateIndexFile False))"
  "map_of (writes c pm) (join [projectPath c, ''src'', ''lib'', ''prisma.ts''])
     = (if typescript c then Some (generatePrismaClient True) else None)"
  "map_of (writes c pm) (join [projectPath c, ''src'', ''lib'', ''prisma.js''])
     = (if typescript c then None else Some (generatePrismaClient False))"
  "map_of (writes c pm) (join [projectPath c, ''src'', ''middlewares'', ''error.middleware.ts''])
     = (if typescript c then Some (generateErrorMiddleware True) else None)"
  "map_of (writes c pm) (join [projectPath c, ''src'', ''middlewares'', ''error.middleware.js''])
     = (if typescript c then None else Some (generateErrorMiddleware False))"
  by (simp_all add: writes_simps join_simps Let_def)

section \<open>The claims\<close>

subsection \<open>The language mode across the files\<close>

text \<open>
  Claim C1: for every configuration, in TypeScript mode the entry point, the wrapper of
  the Prisma client and the error middleware are written with the extension \<^verbatim>\<open>.ts\<close> and
  not with \<^verbatim>\<open>.js\<close>, the field \<^verbatim>\<open>main\<close> of the manifest is \<^verbatim>\<open>dist/index.js\<close> and the scripts
  hold \<^verbatim>\<open>build\<close>; in JavaScript mode the three files are written with \<^verbatim>\<open>.js\<close> and not
  with \<^verbatim>\<open>.ts\<close>, \<^verbatim>\<open>main\<close> is \<^verbatim>\<open>src/index.js\<close> and there is no script \<^verbatim>\<open>build\<close>. This holds of
  the calls that \<^const>\<open>writeProjectFiles\<close> makes and of the file system it leaves: after the
  directory plan and the run on an empty file system the manifest and the three files
  of the mode exist with their contents and the three files of the other extension do
  not exist; and a run that succeeds on any file system leaves the manifest and the
  three files of the mode with these contents and leaves whatever was stored under the
  other extension as it was.
\<close>

theorem language_mode_consistency:
  "(typescript c \<longrightarrow>
      (join [projectPath c, ''src'', ''index.ts''], generateIndexFile True) \<in> set (writes c pm)
    \<and> (join [projectPath c, ''src'', ''lib'', ''prisma.ts''], generatePrismaClient True) \<in> set (writes c pm)
    \<and> (join [projectPath c, ''src'', ''middlewares'', ''error.middleware.ts''],
          generateErrorMiddleware True) \<in> set (writes c pm)
    \<and> join [projectPath c, ''src'', ''index.js''] \<notin> fst ` set (writes c pm)
    \<and> join [projectPath c, ''src'', ''lib'', ''prisma.js''] \<notin> fst ` set (writes c pm)
    \<and> join [projectPath c, ''src'', ''middlewares'', ''error.middleware.js'']
          \<notin> fst ` set (writes c pm)
    \<and> json_field ''main'' (generatePackageJson c) = Some (JString ''dist/index.js'')
    \<and> ''build'' \<in> set (package_keys ''scripts'' c))
   \<and> (\<not> typescript c \<longrightarrow>
      (join [projectPath c, ''src'', ''index.js''], generateIndexFile False) \<in> set (writes c pm)
    \<and> (join [projectPath c, ''src'', ''lib'', ''prisma.js''], generatePrismaClient False) \<in> set (writes c pm)
    \<and> (join [projectPath c, ''src'', ''middlewares'', ''error.middleware.js''],
          generateErrorMiddleware False) \<in> set (writes c pm)
    \<and> join [projectPath c, ''src'', ''index.ts''] \<notin> fst ` set (writes c pm)
    \<and> join [projectPath c, ''src'', ''lib'', ''prisma.ts''] \<notin> fst ` set (writes c pm)
    \<and> join [projectPath c, ''src'', ''middlewares'', ''error.middleware.ts'']
          \<notin> fst ` set (writes c pm)
    \<and> json_field ''main'' (generatePackageJson c) = Some (JString ''src/index.js'')
    \<and> ''build'' \<notin> set (package_keys ''scripts'' c))
   \<and> (join [projectPath c, ''package.json''], JSON_stringify (generatePackageJson c) 2)
        \<in> set (writes c pm)
   \<and> (\<exists>fs1 fs2.
         createProjectStructure (projectPath c) empty_fs = Inr fs1
       \<and> writeProjectFiles c pm fs1 = Inr fs2
       \<and> files fs2 (join [projectPath c, ''package.json''])
           = Some (JSON_stringify (generatePackageJson c) 2)
       \<and> files fs2 (join [projectPath c, ''src'', ''index.ts''])
           = (if typescript c then Some (generateIndexFile True) else None)
       \<and> files fs2 (join [projectPath c, ''src'', ''index.js''])
           = (if typescript c then None else Some (generateIndexFile False))
       \<and> files fs2 (join [projectPath c, ''src'', ''lib'', ''prisma.ts''])
           = (if typescript c then Some (generatePrismaClient True) else None)
       \<and> files fs2 (join [projectPath c, ''src'', ''lib'', ''prisma.js''])
           = (if typescript c then None else Some (generatePrismaClient False))
       \<and> files fs2 (join [projectPath c, ''src'', ''middlewares'', ''error.middleware.ts''])
           = (if typescript c then Some (generateErrorMiddleware True) else None)
       \<and> files fs2 (join [projectPath c, ''src'', ''middlewares'', ''error.middleware.js''])
           = (if typescript c then None else Some (generateErrorMiddleware False)))
   \<and> (writeProjectFiles c pm fs = Inr fs' \<longrightarrow>
         files fs' (join [projectPath c, ''package.json''])
           = Some (JSON_stringify (generatePackageJson c) 2)
       \<and> files fs' (join [projectPath c, ''src'', ''index.ts''])
           = (if typescript c then Some (generateIndexFile True)
              else files fs (join [projectPath c, ''src'', ''index.ts'']))
       \<and> files fs' (join [projectPath c, ''src'', ''index.js''])
           = (if typescript c then files fs (join [projectPath c, ''src'', ''index.js''])
              else Some (generateIndexFile False))
       \<and> files fs' (join [projectPath c, ''src'', ''lib'', ''prisma.ts''])
           = (if typescript c then Some (generatePrismaClient True)
              else files fs (join [projectPath c, ''src'', ''lib'', ''prisma.ts'']))
       \<and> files fs' (join [projectPath c, ''src'', ''lib'', ''prisma.js''])
           = (if typescript c then files fs (join [projectPath c, ''src'', ''lib'', ''prisma.js''])
              else Some (generatePrismaClient False))
       \<and> files fs' (join [projectPath c, ''src'', ''middlewares'', ''error.middleware.ts''])
           = (if typescript c then Some (generateErrorMiddleware True)
              else files fs (join [projectPath c, ''src'', ''middlewares'', ''error.middleware.ts'']))
       \<and> files fs' (join [projectPath c, ''src'', ''middlewares'', ''error.middleware.js''])
           = (if typescript c
              then files fs (join [projectPath c, ''src'', ''middlewares'', ''error.middleware.js''])
              else Some (generateErrorMiddleware False)))"
proof -
  have lists: "(typescript c \<longrightarrow>
      (join [projectPath c, ''src'', ''index.ts''], generateIndexFile True) \<in> set (writes c pm)
    \<and> (join [projectPath c, ''src'', ''lib'', ''prisma.ts''], generatePrismaClient True) \<in> set (writes c pm)
    \<and> (join [projectPath c, ''src'', ''middlewares'', ''error.middleware.ts''],
          generateErrorMiddleware True) \<in> set (writes c pm)
    \<and> join [projectPath c, ''src'', ''index.js''] \<notin> fst ` set (writes c pm)
    \<and> join [projectPath c, ''src'', ''lib'', ''prisma.js''] \<notin> fst ` set (writes c pm)
    \<and> join [projectPath c, ''src'', ''middlewares'', ''error.middleware.js'']
          \<notin> fst ` set (writes c pm)
    \<and> json_field ''main'' (generatePackageJson c) = Some (JString ''dist/index.js'')
    \<and> ''build'' \<in> set (package_keys ''scripts'' c))
   \<and> (\<not> typescript c \<longrightarrow>
      (join [projectPath c, ''src'', ''index.js''], generateIndexFile False) \<in> set (writes c pm)
    \<and> (join [projectPath c, ''src'', ''lib'', ''prisma.js''], generatePrismaClient False) \<in> set (writes c pm)
    \<and> (join [projectPath c, ''src'', ''middlewares'', ''error.middleware.js''],
          generateErrorMiddleware False) \<in> set (writes c pm)
    \<and> join [projectPath c, ''src'', ''index.ts''] \<notin> fst ` set (writes c pm)
    \<and> join [projectPath c, ''src'', ''lib'', ''prisma.ts''] \<notin> fst ` set (writes c pm)
    \<and> join [projectPath c, ''src'', ''middlewares'', ''error.middleware.ts'']
          \<notin> fst ` set (writes c pm)
    \<and> json_field ''main'' (generatePackageJson c) = Some (JString ''src/index.js'')
    \<and> ''build'' \<notin> set (package_keys ''scripts'' c))
   \<and> (join [projectPath c, ''package.json''], JSON_stringify (generatePackageJson c) 2)
        \<in> set (writes c pm)"
    by (simp add: writes_simps join_simps Let_def generatePackageJson_def package_keys_simps
        scripts_def)
  obtain fs1 fs2 where run: "createProjectStructure (projectPath c) empty_fs = Inr fs1"
      "writeProjectFiles c pm fs1 = Inr fs2" and files: "files fs2 = map_of (writes c pm)"
    using fresh_project[of c pm] by blast
  have fresh: "\<exists>fs1 fs2.
         createProjectStructure (projectPath c) empty_fs = Inr fs1
       \<and> writeProjectFiles c pm fs1 = Inr fs2
       \<and> files fs2 (join [projectPath c, ''package.json''])
           = Some (JSON_stringify (generatePackageJson c) 2)
       \<and> files fs2 (join [projectPath c, ''src'', ''index.ts''])
           = (if typescript c then Some (generateIndexFile True) else None)
       \<and> files fs2 (join [projectPath c, ''src'', ''index.js''])
           = (if typescript c then None else Some (generateIndexFile False))
       \<and> files fs2 (join [projectPath c, ''src'', ''lib'', ''prisma.ts''])
           = (if typescript c then Some (generatePrismaClient True) else None)
       \<and> files fs2 (join [projectPath c, ''src'', ''lib'', ''prisma.js''])
           = (if typescript c then None else Some (generatePrismaClient False))
       \<and> files fs2 (join [projectPath c, ''src'', ''middlewares'', ''error.middleware.ts''])
           = (if typescript c then Some (generateErrorMiddleware True) else None)
       \<and> files fs2 (join [projectPath c, ''src'', ''middlewares'', ''error.middleware.js''])
           = (if typescript c then None else Some (generateErrorMiddleware False))"
    using run by (intro exI[of _ fs1] exI[of _ fs2]) (simp add: files source_file_writes)
  have any: "writeProjectFiles c pm fs = Inr fs' \<longrightarrow>
         files fs' (join [projectPath c, ''package.json''])
           = Some (JSON_stringify (generatePackageJson c) 2)
       \<and> files fs' (join [projectPath c, ''src'', ''index.ts''])
           = (if typescript c then Some (generateIndexFile True)
              else files fs (join [projectPath c, ''src'', ''index.ts'']))
       \<and> files fs' (join [projectPath c, ''src'', ''index.js''])
           = (if typescript c then files fs (join [projectPath c, ''src'', ''index.js''])
              else Some (generateIndexFile False))
       \<and> files fs' (join [projectPath c, ''src'', ''lib'', ''prisma.ts''])
           = (if typescript c then Some (generatePrismaClient True)
              else files fs (join [projectPath c, ''src'', ''lib'', ''prisma.ts'']))
       \<and> files fs' (join [projectPath c, ''src'', ''lib'', ''prisma.js''])
           = (if typescript c then files fs (join [projectPath c, ''src'', ''lib'', ''prisma.js''])
              else Some (generatePrismaClient False))
       \<and> files fs' (join [projectPath c, ''src'', ''middlewares'', ''error.middleware.ts''])
           = (if typescript c then Some (generateErrorMiddleware True)
              else files fs (join [projectPath c, ''src'', ''middlewares'', ''error.middleware.ts'']))
       \<and> files fs' (join [projectPath c, ''src'', ''middlewares'', ''error.middleware.js''])
           = (if typescript c
              then files fs (join [projectPath c, ''src'', ''middlewares'', ''error.middleware.js''])
              else Some (generateErrorMiddleware False))"
    by (simp add: run_files source_file_writes)
  from lists fresh any show ?thesis by (intro conjI) blast+
qed

theorem language_mode_consistency_witness:
  "typescript demo_config
   \<and> \<not> typescript (demo_config\<lparr>typescript := False\<rparr>)
   \<and> json_field ''main'' (generatePackageJson demo_config) = Some (JString ''dist/index.js'')
   \<and> ''build'' \<in> set (package_keys ''scripts'' demo_config)
   \<and> json_field ''main'' (generatePackageJson (demo_config\<lparr>typescript := False\<rparr>))
        = Some (JString ''src/index.js'')
   \<and> ''build'' \<notin> set (package_keys ''scripts'' (demo_config\<lparr>typescript := False\<rparr>))
   \<and> (\<exists>fs1 fs2. createProjectStructure ''/tmp/demo-api'' empty_fs = Inr fs1
         \<and> writeProjectFiles demo_config ''pnpm'' fs1 = Inr fs2
         \<and> files fs2 (join [''/tmp/demo-api'', ''src'', ''index.ts'']) = Some (generateIndexFile True)
         \<and> files fs2 (join [''/tmp/demo-api'', ''src'', ''index.js'']) = None)
   \<and> (\<exists>fs1 fs2. createProjectStructure ''/tmp/demo-api'' empty_fs = Inr fs1
         \<and> writeProjectFiles (demo_config\<lparr>typescript := False\<rparr>) ''npm'' fs1 = Inr fs2
         \<and> files fs2 (join [''/tmp/demo-api'', ''src'', ''index.js'']) = Some (generateIndexFile False)
         \<and> files fs2 (join [''/tmp/demo-api'', ''src'', ''index.ts'']) = None)"
proof -
  let ?js = "demo_config\<lparr>typescript := False\<rparr>"
  obtain a1 a2 where a: "createProjectStructure (projectPath demo_config) empty_fs = Inr a1"
      "writeProjectFiles demo_config ''pnpm'' a1 = Inr a2" "files a1 = Map.empty"
    using fresh_project[of demo_config "''pnpm''"]
      forEach_mkdir_planned[of "projectPath demo_config" empty_fs]
    by (auto simp: empty_fs_def)
  obtain b1 b2 where b: "createProjectStructure (projectPath ?js) empty_fs = Inr b1"
      "writeProjectFiles ?js ''npm'' b1 = Inr b2" "files b1 = Map.empty"
    using fresh_project[of ?js "''npm''"]
      forEach_mkdir_planned[of "projectPath ?js" empty_fs]
    by (auto simp: empty_fs_def)
  have ts: "typescript demo_config" and js: "\<not> typescript ?js"
    by (simp_all add: demo_config_def)
  from language_mode_consistency [of demo_config "''pnpm''" a1 a2] ts a
  have 1: "json_field ''main'' (generatePackageJson demo_config) = Some (JString ''dist/index.js'')"
      "''build'' \<in> set (package_keys ''scripts'' demo_config)"
      "files a2 (join [projectPath demo_config, ''src'', ''index.ts'']) = Some (generateIndexFile True)"
      "files a2 (join [projectPath demo_config, ''src'', ''index.js'']) = None"
    by simp_all
  from language_mode_consistency [of ?js "''npm''" b1 b2] js b
  have 2: "json_field ''main'' (generatePackageJson ?js) = Some (JString ''src/index.js'')"
      "''build'' \<notin> set (package_keys ''scripts'' ?js)"
      "files b2 (join [projectPath ?js, ''src'', ''index.js'']) = Some (generateIndexFile False)"
      "files b2 (join [projectPath ?js, ''src'', ''index.ts'']) = None"
    by simp_all
  have p: "projectPath demo_config = ''/tmp/demo-api''" "projectPath ?js = ''/tmp/demo-api''"
    by (simp_all add: demo_config_def)
  from ts js 1 2 a b show ?thesis
    unfolding p by blast
qed

subsection \<open>The packages of the manifest\<close>

text \<open>
  Claim C2 says that the manifest lists the type-checking engine and the type-definition
  packages only in TypeScript mode, so that in JavaScript mode neither table holds a
  type-definition package. In JavaScript mode the table \<^verbatim>\<open>devDependencies\<close> holds the three
  packages of the \<^verbatim>\<open>@types\<close> scope all the same: they are part of the object literal that
  both modes start from.
\<close>

theorem manifest_packages_counterexample:
  "filter type_definition_package
     (package_keys ''devDependencies''
        (demo_config\<lparr>typescript := False\<rparr>))
   = [''@types/node'', ''@types/express'', ''@types/better-sqlite3'']"
  by (simp add: package_keys_simps devDependencies_def base_devDependencies_def
      type_definition_package_def demo_config_def)

text \<open>
  Claim C2, amended: for every configuration, \<^verbatim>\<open>typescript\<close> and \<^verbatim>\<open>tsx\<close> are development
  dependencies exactly in TypeScript mode, \<^verbatim>\<open>@prisma/client-runtime-utils\<close> is a dependency
  exactly in JavaScript mode, the table \<^verbatim>\<open>dependencies\<close> never holds a type-definition
  package, and the table \<^verbatim>\<open>devDependencies\<close> holds \<^verbatim>\<open>@types/node\<close>, \<^verbatim>\<open>@types/express\<close> and
  \<^verbatim>\<open>@types/better-sqlite3\<close> in both modes.
\<close>

theorem manifest_packages:
  "package_keys ''dependencies'' c =
     [''express'', ''express-async-handler'', ''@prisma/client'',
      ''@prisma/adapter-better-sqlite3'', ''better-sqlite3'', ''dotenv'']
     @ (if typescript c then [] else [''@prisma/client-runtime-utils''])
   \<and> package_keys ''devDependencies'' c =
     [''@types/node'', ''@types/express'', ''@types/better-sqlite3'', ''prisma'']
     @ (if typescript c then [''typescript'', ''tsx''] else [])
   \<and> filter type_definition_package (package_keys ''dependencies'' c) = []
   \<and> filter type_definition_package (package_keys ''devDependencies'' c) =
     [''@types/node'', ''@types/express'', ''@types/better-sqlite3'']"
  by (simp add: package_keys_simps dependencies_def devDependencies_def base_dependencies_def
      base_devDependencies_def type_definition_package_def)

subsection \<open>Fields that no renderer reads\<close>

text \<open>
  Claim C6: two configurations that differ only in \<^verbatim>\<open>database\<close> give the same manifest,
  the same environment file, the same list of written files with the same contents and
  the same result of the run on every file system; the environment file is the fixed
  text with port 3000, the development flag and the connection string of the local file
  \<^verbatim>\<open>file:./dev.db\<close>, whatever the database is.
\<close>

theorem database_ignored:
  \<open>generatePackageJson (c\<lparr>database := d\<rparr>) = generatePackageJson c
   \<and> generateEnvFile d = generateEnvFile (database c)
   \<and> generateEnvFile d =
       unlines [''PORT=3000'', ''NODE_ENV=development'', ''DATABASE_URL="file:./dev.db"'']
   \<and> writes (c\<lparr>database := d\<rparr>) pm = writes c pm
   \<and> createProjectStructure (projectPath (c\<lparr>database := d\<rparr>)) fs
       = createProjectStructure (projectPath c) fs
   \<and> writeProjectFiles (c\<lparr>database := d\<rparr>) pm fs = writeProjectFiles c pm fs\<close>
  by (simp add: generatePackageJson_def generateEnvFile_def writes_def writeProjectFiles_def)

text \<open>
  Claim C9: two configurations that differ only in \<^verbatim>\<open>template\<close> give the same manifest,
  the same list of written files with the same contents and the same result of the
  directory plan and of the run on every file system, failures included; and with any
  value of \<^verbatim>\<open>template\<close> the directory plan followed by the run succeeds on an empty file
  system. The renderers are total functions: none has a failing branch.
\<close>

theorem template_ignored:
  "generatePackageJson (c\<lparr>template := t\<rparr>) = generatePackageJson c
   \<and> writes (c\<lparr>template := t\<rparr>) pm = writes c pm
   \<and> createProjectStructure (projectPath (c\<lparr>template := t\<rparr>)) fs
       = createProjectStructure (projectPath c) fs
   \<and> writeProjectFiles (c\<lparr>template := t\<rparr>) pm fs = writeProjectFiles c pm fs
   \<and> (\<exists>fs1 fs2. createProjectStructure (projectPath (c\<lparr>template := t\<rparr>)) empty_fs = Inr fs1
          \<and> writeProjectFiles (c\<lparr>template := t\<rparr>) pm fs1 = Inr fs2)"
proof -
  have "\<exists>fs1 fs2. createProjectStructure (projectPath (c\<lparr>template := t\<rparr>)) empty_fs = Inr fs1
          \<and> writeProjectFiles (c\<lparr>template := t\<rparr>) pm fs1 = Inr fs2"
    using fresh_run[of "c\<lparr>template := t\<rparr>" pm] by blast
  then show ?thesis
    by (simp add: generatePackageJson_def writes_def writeProjectFiles_def)
qed

subsection \<open>The example scenario\<close>

text \<open>
  Claim C3: for the configuration of the example (project \<^verbatim>\<open>demo-api\<close> at
  \<^verbatim>\<open>/tmp/demo-api\<close>, TypeScript, SQLite, the default template) and \<^verbatim>\<open>pnpm\<close>, the directory plan
  followed by the run succeeds on an empty file system and leaves a manifest whose text
  parses to an object with \<^verbatim>\<open>scripts.dev\<close> equal to
  \<^verbatim>\<open>tsx watch --env-file=.env src/index.ts\<close>, a file \<^verbatim>\<open>tsconfig.json\<close> whose text parses to an
  object with \<^verbatim>\<open>compilerOptions.strict\<close> true, an entry point \<^verbatim>\<open>src/index.ts\<close> that imports
  the error middleware from \<^verbatim>\<open>./middlewares/error.middleware\<close> and nowhere names that file
  with an extension, and a \<^verbatim>\<open>README.md\<close> that contains \<^verbatim>\<open>pnpm approve-builds\<close>.
\<close>

theorem demo_scenario:
  \<open>\<exists>fs1 fs2 manifest config entry readme.
      createProjectStructure (projectPath demo_config) empty_fs = Inr fs1
    \<and> writeProjectFiles demo_config ''pnpm'' fs1 = Inr fs2
    \<and> files fs2 (join [''/tmp/demo-api'', ''package.json'']) = Some manifest
    \<and> Option.bind (Option.bind (JSON_parse manifest) (json_field ''scripts'')) (json_field ''dev'')
        = Some (JString ''tsx watch --env-file=.env src/index.ts'')
    \<and> files fs2 (join [''/tmp/demo-api'', ''tsconfig.json'']) = Some config
    \<and> Option.bind (Option.bind (JSON_parse config) (json_field ''compilerOptions''))
         (json_field ''strict'') = Some (JBool True)
    \<and> files fs2 (join [''/tmp/demo-api'', ''src'', ''index.ts'']) = Some entry
    \<and> ''import errorHandler from "./middlewares/error.middleware";'' \<in> set (lines_of entry)
    \<and> \<not> sublist ''error.middleware.'' entry
    \<and> files fs2 (join [''/tmp/demo-api'', ''README.md'']) = Some readme
    \<and> sublist ''pnpm approve-builds'' readme\<close>
proof -
  obtain fs1 fs2 where run: "createProjectStructure (projectPath demo_config) empty_fs = Inr fs1"
      "writeProjectFiles demo_config ''pnpm'' fs1 = Inr fs2"
    and files: "files fs2 = map_of (writes demo_config ''pnpm'')"
    using fresh_project[of demo_config "''pnpm''"] by blast
  have w: "map_of (writes demo_config ''pnpm'') (join [''/tmp/demo-api'', ''package.json''])
            = Some (JSON_stringify (generatePackageJson demo_config) 2)"
      "map_of (writes demo_config ''pnpm'') (join [''/tmp/demo-api'', ''tsconfig.json''])
            = Some generateTsConfig"
      "map_of (writes demo_config ''pnpm'') (join [''/tmp/demo-api'', ''src'', ''index.ts''])
            = Some (generateIndexFile True)"
      "map_of (writes demo_config ''pnpm'') (join [''/tmp/demo-api'', ''README.md''])
            = Some (generateReadme ''demo-api'' True ''pnpm'')"
    by (simp_all add: writes_simps join_simps Let_def demo_config_def)
  have m: "Option.bind (Option.bind (JSON_parse (JSON_stringify (generatePackageJson demo_config) 2))
             (json_field ''scripts'')) (json_field ''dev'')
        = Some (JString ''tsx watch --env-file=.env src/index.ts'')"
    by (simp add: parse_demo_manifest)
       (simp add: generatePackageJson_def demo_config_def record_json_def scripts_def)
  have t: "Option.bind (Option.bind (JSON_parse generateTsConfig) (json_field ''compilerOptions''))
         (json_field ''strict'') = Some (JBool True)"
    by (simp add: parse_tsconfig) (simp add: tsconfig_def)
  show ?thesis
    using run w m t index_ts_import index_ts_no_suffix demo_readme
    by (simp add: files)
qed

subsection \<open>The two configuration files\<close>

text \<open>
  Claim C4: in both language modes \<^verbatim>\<open>prisma.config.ts\<close> is among the files written, with
  the content of \<^const>\<open>generatePrismaConfig\<close>; \<^verbatim>\<open>tsconfig.json\<close> is among the files written
  exactly when \<^verbatim>\<open>typescript\<close> is true, with the content of \<^const>\<open>generateTsConfig\<close>, and that
  content parses as JSON; after the directory plan and the run on an empty file system the
  file \<^verbatim>\<open>tsconfig.json\<close> exists in TypeScript mode and is absent in JavaScript mode.
\<close>

theorem config_files_written:
  "map_of (writes c pm) (join [projectPath c, ''prisma.config.ts'']) = Some generatePrismaConfig
   \<and> map_of (writes c pm) (join [projectPath c, ''tsconfig.json''])
       = (if typescript c then Some generateTsConfig else None)
   \<and> JSON_parse generateTsConfig = Some tsconfig
   \<and> (\<exists>fs1 fs2. createProjectStructure (projectPath c) empty_fs = Inr fs1
         \<and> writeProjectFiles c pm fs1 = Inr fs2
         \<and> files fs2 (join [projectPath c, ''prisma.config.ts'']) = Some generatePrismaConfig
         \<and> files fs2 (join [projectPath c, ''tsconfig.json''])
             = (if typescript c then Some generateTsConfig else None))"
proof -
  have 1: "map_of (writes c pm) (join [projectPath c, ''prisma.config.ts'']) = Some generatePrismaConfig"
    by (simp add: writes_simps join_simps Let_def)
  have 2: "map_of (writes c pm) (join [projectPath c, ''tsconfig.json''])
       = (if typescript c then Some generateTsConfig else None)"
    by (simp add: writes_simps join_simps Let_def)
  from fresh_project[of c pm] 1 2 parse_tsconfig show ?thesis
    by auto
qed

subsection \<open>The generated error handler\<close>

text \<open>
  Claim C5 says that in both language modes the generated handler maps the code
  \<^verbatim>\<open>P2002\<close> to the status 409 and \<^verbatim>\<open>P2025\<close> to 404, and that the two variants differ in
  typing only. The TypeScript variant tests \<^verbatim>\<open>err instanceof
  Prisma.PrismaClientKnownRequestError\<close> before it reads the code, the JavaScript variant
  does not (\<open>error_middleware_text\<close>, \<open>error_middleware_js_unguarded\<close>). For a thrown value
  that carries the code \<^verbatim>\<open>P2002\<close> without being an instance of that class, and a response
  still at status 200, the TypeScript variant answers 500 with the message of the error
  and the JavaScript variant answers 409.
\<close>

theorem error_handler_counterexample:
  "errorHandler True forged_error 200 None
     = (500, JObject [(''message'', JString ''boom''), (''stack'', JString ''Error: boom'')])
   \<and> errorHandler False forged_error 200 None
     = (409, JObject [(''message'', JString ''Duplicate field value: undefined''),
                      (''stack'', JString ''Error: boom'')])"
  by (simp add: errorHandler_def errorHandler_ts_def errorHandler_js_def forged_error_def
      interpolate_def Let_def)

text \<open>
  Claim C5, amended: the JavaScript variant for every thrown value, and the TypeScript
  variant for an instance of \<^verbatim>\<open>Prisma.PrismaClientKnownRequestError\<close>, answers the code
  \<^verbatim>\<open>P2002\<close> with the status 409 and a message built from \<^verbatim>\<open>meta.target\<close>, and the code
  \<^verbatim>\<open>P2025\<close> with 404 and a message built from \<^verbatim>\<open>meta.cause\<close>. For any other code, and in
  the TypeScript variant for any value that is not such an instance, the status is the
  one the response holds, or 500 when that is still 200, and the message is the one of
  the error. In every case the body holds the stack of the error unless \<^verbatim>\<open>NODE_ENV\<close> is
  \<^verbatim>\<open>production\<close>, where it holds \<^verbatim>\<open>null\<close>. The two variants answer alike on every instance
  of the class and on every value whose code is neither \<^verbatim>\<open>P2002\<close> nor \<^verbatim>\<open>P2025\<close>.
\<close>

theorem error_handler_behaviour:
  "(err_known_request_error err \<or> \<not> ts \<longrightarrow>
      (err_code err = Some ''P2002'' \<longrightarrow>
         errorHandler ts err status env =
           (409, JObject
              [(''message'', JString (''Duplicate field value: '' @ interpolate (err_meta_target err))),
               (''stack'', if env = Some ''production'' then JNull else JString (err_stack err))]))
    \<and> (err_code err = Some ''P2025'' \<longrightarrow>
         errorHandler ts err status env =
           (404, JObject
              [(''message'', JString (''Resource not found: '' @ interpolate (err_meta_cause err))),
               (''stack'', if env = Some ''production'' then JNull else JString (err_stack err))])))
   \<and> ((err_code err \<noteq> Some ''P2002'' \<and> err_code err \<noteq> Some ''P2025'')
        \<or> (ts \<and> \<not> err_known_request_error err) \<longrightarrow>
      errorHandler ts err status env =
        (if status \<noteq> 200 then status else 500,
         JObject
           [(''message'', JString (err_message err)),
            (''stack'', if env = Some ''production'' then JNull else JString (err_stack err))]))
   \<and> json_field ''stack'' (snd (errorHandler ts err status env))
        = Some (if env = Some ''production'' then JNull else JString (err_stack err))
   \<and> (err_known_request_error err
         \<or> (err_code err \<noteq> Some ''P2002'' \<and> err_code err \<noteq> Some ''P2025'') \<longrightarrow>
      errorHandler True err status env = errorHandler False err status env)"
  by (auto simp: errorHandler_def errorHandler_ts_def errorHandler_js_def Let_def)

theorem error_handler_behaviour_witness:
  "err_known_request_error duplicate_error \<and> err_code duplicate_error = Some ''P2002''
   \<and> errorHandler True duplicate_error 200 (Some ''production'')
       = (409, JObject [(''message'', JString ''Duplicate field value: email''), (''stack'', JNull)])
   \<and> errorHandler True duplicate_error 200 (Some ''production'')
       = errorHandler False duplicate_error 200 (Some ''production'')
   \<and> \<not> err_known_request_error forged_error
   \<and> errorHandler True forged_error 200 None
       = (500, JObject [(''message'', JString ''boom''), (''stack'', JString ''Error: boom'')])"
  using error_handler_behaviour [of duplicate_error True 200 "Some ''production''"]
    error_handler_behaviour [of forged_error True 200 None]
  by (simp add: duplicate_error_def forged_error_def interpolate_def errorHandler_def
      errorHandler_ts_def errorHandler_js_def Let_def)

subsection \<open>The directory plan\<close>

text \<open>
  Claim C7: the directory plan depends on the destination only. When it succeeds, each of
  its twelve folders is a directory under the destination, \<^verbatim>\<open>src/types\<close> among them
  whatever the language mode, and no file is touched. Every file that the run writes has
  as its parent directory the destination itself or a folder of the plan, and the plan
  followed by the run succeeds on an empty file system.
\<close>

theorem directory_plan:
  "(createProjectStructure (projectPath c) fs = Inr fs' \<longrightarrow>
      (\<forall>f\<in>set folders. join [projectPath c, f] \<in> dirs fs')
      \<and> join [projectPath c, ''src/types''] \<in> dirs fs'
      \<and> files fs' = files fs)
   \<and> folders =
       [''src'', ''src/controllers'', ''src/models'', ''src/routes'', ''src/middlewares'',
        ''src/config'', ''src/utils'', ''src/lib'', ''src/types'', ''public'', ''prisma'',
        ''requests'']
   \<and> (\<forall>w\<in>set (writes c pm).
         dirname (fst w) = join [projectPath c]
         \<or> dirname (fst w) \<in> (\<lambda>f. join [projectPath c, f]) ` set folders)
   \<and> (\<exists>fs1 fs2. createProjectStructure (projectPath c) empty_fs = Inr fs1
         \<and> writeProjectFiles c pm fs1 = Inr fs2)"
proof -
  have 1: "createProjectStructure (projectPath c) fs = Inr fs' \<longrightarrow>
      (\<forall>f\<in>set folders. join [projectPath c, f] \<in> dirs fs')
      \<and> join [projectPath c, ''src/types''] \<in> dirs fs'
      \<and> files fs' = files fs"
  proof
    assume a: "createProjectStructure (projectPath c) fs = Inr fs'"
    note p = forEach_mkdir_planned[OF a]
    have "\<forall>f\<in>set folders. join [projectPath c, f] \<in> dirs fs'"
      using p self_ancestor by blast
    moreover have "''src/types'' \<in> set folders" by (simp add: folders_def)
    ultimately show "(\<forall>f\<in>set folders. join [projectPath c, f] \<in> dirs fs')
      \<and> join [projectPath c, ''src/types''] \<in> dirs fs' \<and> files fs' = files fs"
      using p by blast
  qed
  have 2: "\<forall>p\<in>set (map fst (writes c pm)).
         dirname p = join [projectPath c]
         \<or> dirname p \<in> (\<lambda>f. join [projectPath c, f]) ` set folders"
    unfolding writes_paths
    by (simp add: Let_def dirname_def butlast_append folders_def join_root isAbsolute_def norm_step_def)
  have 3: "\<exists>fs1 fs2. createProjectStructure (projectPath c) empty_fs = Inr fs1
         \<and> writeProjectFiles c pm fs1 = Inr fs2"
    using fresh_project[of c pm] by blast
  from 1 2 3 show ?thesis by (simp add: folders_def)
qed

theorem directory_plan_witness:
  "\<exists>fs1. createProjectStructure (projectPath (demo_config\<lparr>typescript := False\<rparr>)) empty_fs = Inr fs1
     \<and> join [''/tmp/demo-api'', ''src/types''] \<in> dirs fs1
     \<and> files fs1 = Map.empty
     \<and> dirname (join [''/tmp/demo-api'', ''src'', ''lib'', ''prisma.js''])
         = join [''/tmp/demo-api'', ''src/lib'']
     \<and> (join [''/tmp/demo-api'', ''src'', ''lib'', ''prisma.js''], generatePrismaClient False)
         \<in> set (writes (demo_config\<lparr>typescript := False\<rparr>) ''npm'')"
proof -
  obtain fs1 where 1: "createProjectStructure (projectPath (demo_config\<lparr>typescript := False\<rparr>)) empty_fs = Inr fs1"
    using fresh_project[of "demo_config\<lparr>typescript := False\<rparr>" "''npm''"] by blast
  have 2: "(join [''/tmp/demo-api'', ''src'', ''lib'', ''prisma.js''], generatePrismaClient False)
         \<in> set (writes (demo_config\<lparr>typescript := False\<rparr>) ''npm'')"
    by (simp add: writes_def demo_config_def Let_def)
  have 3: "dirname (join [''/tmp/demo-api'', ''src'', ''lib'', ''prisma.js''])
         = join [''/tmp/demo-api'', ''src/lib'']"
    by (simp add: join_root isAbsolute_def norm_step_def dirname_def butlast_append)
  from directory_plan [of "demo_config\<lparr>typescript := False\<rparr>" empty_fs fs1 "''npm''"] 1 2 3
  show ?thesis by (simp add: demo_config_def empty_fs_def)
qed

subsection \<open>The documentation\<close>

text \<open>
  Claim C8 says that the documentation holds the section on the approval of native
  builds exactly for \<^verbatim>\<open>pnpm\<close>. The project name is interpolated as it is given: for the
  package manager \<^verbatim>\<open>yarn\<close> and a project name that carries a line feed followed by the
  text of the section, the documentation holds the whole section, and the line
  \<^verbatim>\<open>pnpm approve-builds\<close> among its lines.
\<close>

theorem approve_builds_section_counterexample:
  "sublist (unlines approve_builds_section) (generateReadme spoofing_name True ''yarn'')
   \<and> ''pnpm approve-builds'' \<in> set (lines_of (generateReadme spoofing_name True ''yarn''))"
proof -
  obtain rest where r: "readme_lines spoofing_name True ''yarn'' ''yarn'' = (''# '' @ spoofing_name) # rest"
    using readme_first_line by blast
  have "approve_builds_section \<noteq> []" by (simp add: approve_builds_section_def)
  then obtain x where x: "unlines approve_builds_section = x @ [newline]"
    using unlines_snoc by blast
  have "generateReadme spoofing_name True ''yarn'' = unlines ((''# '' @ spoofing_name) # rest)"
    by (simp add: generateReadme_unlines r)
  also have "\<dots> = ''# x'' @ [newline] @ unlines approve_builds_section @ unlines rest"
    by (simp add: unlines_Cons spoofing_name_def x)
  finally have 1: "sublist (unlines approve_builds_section) (generateReadme spoofing_name True ''yarn'')"
    unfolding sublist_def by (metis append.assoc)
  then have "''pnpm approve-builds'' \<in> set (lines_of (generateReadme spoofing_name True ''yarn''))"
    unfolding section_split by (rule block_line) simp_all
  with 1 show ?thesis by simp
qed

text \<open>
  Claim C8, amended: for \<^verbatim>\<open>pnpm\<close> the documentation holds the section on the approval of
  native builds, whatever the project name. When neither the project name nor the
  package manager holds a line feed, the documentation holds the section exactly when
  the package manager is \<^verbatim>\<open>pnpm\<close>, and so it is for the heading of the section and for
  the line \<^verbatim>\<open>pnpm approve-builds\<close> among the lines of the documentation.
\<close>

theorem approve_builds_section:
  "(pm = ''pnpm'' \<longrightarrow> sublist (unlines approve_builds_section) (generateReadme name ts pm))
   \<and> (newline \<notin> set name \<and> newline \<notin> set pm \<longrightarrow>
        sublist (unlines approve_builds_section) (generateReadme name ts pm) = (pm = ''pnpm'')
      \<and> (approve_builds_heading \<in> set (lines_of (generateReadme name ts pm))) = (pm = ''pnpm'')
      \<and> (''pnpm approve-builds'' \<in> set (lines_of (generateReadme name ts pm))) = (pm = ''pnpm''))"
proof -
  have 1: "pm = ''pnpm'' \<longrightarrow> sublist (unlines approve_builds_section) (generateReadme name ts pm)"
    using section_in_readme by simp
  have 2: "(''pnpm approve-builds'' \<in> set (lines_of (generateReadme name ts pm))) = (pm = ''pnpm'')"
    if "newline \<notin> set name" "newline \<notin> set pm"
    using approve_line_absent[of pm name ts] approve_line_present[of name ts]
    by (auto simp: lines_of_readme[OF that])
  have 3: "(approve_builds_heading \<in> set (lines_of (generateReadme name ts pm))) = (pm = ''pnpm'')"
    if "newline \<notin> set name" "newline \<notin> set pm"
  proof (cases "pm = ''pnpm''")
    case True
    have "newline \<notin> set ''pnpm''" by simp
    from lines_of_readme[OF that(1) this, of ts] True approve_heading_present[of name ts] show ?thesis
      by simp
  next
    case False
    with approve_heading_absent[OF False, of name ts] show ?thesis
      by (simp add: lines_of_readme[OF that] approve_builds_heading_def)
  qed
  have 4: "sublist (unlines approve_builds_section) (generateReadme name ts pm) = (pm = ''pnpm'')"
    if "newline \<notin> set name" "newline \<notin> set pm"
    using 1 section_absent[OF that, of ts] by blast
  from 1 2 3 4 show ?thesis by blast
qed

theorem approve_builds_section_witness:
  "sublist (unlines approve_builds_section) (generateReadme ''demo-api'' True ''pnpm'')
   \<and> ''pnpm approve-builds'' \<in> set (lines_of (generateReadme ''demo-api'' True ''pnpm''))
   \<and> newline \<notin> set ''demo-api'' \<and> newline \<notin> set ''yarn''
   \<and> \<not> sublist (unlines approve_builds_section) (generateReadme ''demo-api'' True ''yarn'')
   \<and> ''pnpm approve-builds'' \<notin> set (lines_of (generateReadme ''demo-api'' True ''yarn''))
   \<and> approve_builds_heading \<notin> set (lines_of (generateReadme ''demo-api'' True ''yarn''))"
  using approve_builds_section [of "''pnpm''" "''demo-api''" True]
    approve_builds_section [of "''yarn''" "''demo-api''" True]
  by simp

text \<open>
  Claim C10: for every package manager other than \<^verbatim>\<open>npm\<close>, known or not, the
  documentation holds the command examples with that string as it was given: the quick
  start, where the installation, the two database commands and the development server
  each stand at the start of a line right after the opening of their block; the tables
  of the available commands; and the regeneration of the client in the troubleshooting
  section. When neither the project name nor the package manager holds a line feed,
  the lines inside the blocks marked \<^verbatim>\<open>bash\<close> are exactly these commands, the fixed
  examples that do not invoke the package manager, and for \<^verbatim>\<open>pnpm\<close> the two approval
  blocks. Only for \<^verbatim>\<open>npm\<close> the commands other than the installation start with
  \<^verbatim>\<open>npm run\<close>. The renderer is a total function: it checks nothing about the string.
\<close>

theorem package_manager_prefix:
  "(pm \<noteq> ''npm'' \<longrightarrow>
      sublist (unlines (quick_start pm pm)) (generateReadme name ts pm)
    \<and> sublist (unlines (command_table ts pm)) (generateReadme name ts pm)
    \<and> sublist (unlines (regenerate_client pm)) (generateReadme name ts pm)
    \<and> (newline \<notin> set name \<and> newline \<notin> set pm \<longrightarrow>
         code_lines False (lines_of (generateReadme name ts pm)) =
           (if pm = ''pnpm''
            then [''pnpm approve-builds'', ''# Select: better-sqlite3 (press space, then enter)'']
            else [])
           @ [pm @ '' install'',
              ''# Generate Prisma Client'',
              pm @ '' db:generate'',
              '''',
              ''# Push schema to database'',
              pm @ '' db:push'',
              pm @ '' dev'']
           @ fixed_examples
           @ [pm @ '' db:generate'']
           @ (if pm = ''pnpm'' then [''pnpm approve-builds'', ''# Select: better-sqlite3''] else [])))
   \<and> sublist (unlines (quick_start ''npm'' ''npm run'')) (generateReadme name ts ''npm'')
   \<and> sublist (unlines (command_table ts ''npm run'')) (generateReadme name ts ''npm'')
   \<and> sublist (unlines (regenerate_client ''npm run'')) (generateReadme name ts ''npm'')
   \<and> (newline \<notin> set name \<longrightarrow>
        code_lines False (lines_of (generateReadme name ts ''npm'')) =
          [''npm install'',
           ''# Generate Prisma Client'',
           ''npm run db:generate'',
           '''',
           ''# Push schema to database'',
           ''npm run db:push'',
           ''npm run dev'']
          @ fixed_examples
          @ [''npm run db:generate''])"
proof -
  have other: "generateReadme name ts pm = unlines (readme_lines name ts pm pm)" if "pm \<noteq> ''npm''"
    using that by (simp add: generateReadme_unlines)
  have npm: "generateReadme name ts ''npm'' = unlines (readme_lines name ts ''npm'' ''npm run'')"
    by (simp add: generateReadme_unlines)
  have 1: "sublist (unlines (quick_start pm pm)) (generateReadme name ts pm)"
      "sublist (unlines (command_table ts pm)) (generateReadme name ts pm)"
      "sublist (unlines (regenerate_client pm)) (generateReadme name ts pm)"
    if "pm \<noteq> ''npm''"
    unfolding other[OF that]
    by (rule sublist_unlines, rule quick_start_in_readme command_table_in_readme
        regenerate_client_in_readme)+
  have 2: "code_lines False (lines_of (generateReadme name ts pm)) =
           (if pm = ''pnpm''
            then [''pnpm approve-builds'', ''# Select: better-sqlite3 (press space, then enter)'']
            else [])
           @ [pm @ '' install'',
              ''# Generate Prisma Client'',
              pm @ '' db:generate'',
              '''',
              ''# Push schema to database'',
              pm @ '' db:push'',
              pm @ '' dev'']
           @ fixed_examples
           @ [pm @ '' db:generate'']
           @ (if pm = ''pnpm'' then [''pnpm approve-builds'', ''# Select: better-sqlite3''] else [])"
    if "pm \<noteq> ''npm''" "newline \<notin> set name" "newline \<notin> set pm"
    using that(1) by (simp only: lines_of_readme[OF that(2,3)] if_False code_lines_readme)
  have 3: "sublist (unlines (quick_start ''npm'' ''npm run'')) (generateReadme name ts ''npm'')"
      "sublist (unlines (command_table ts ''npm run'')) (generateReadme name ts ''npm'')"
      "sublist (unlines (regenerate_client ''npm run'')) (generateReadme name ts ''npm'')"
    unfolding npm
    by (rule sublist_unlines, rule quick_start_in_readme command_table_in_readme
        regenerate_client_in_readme)+
  have 4: "code_lines False (lines_of (generateReadme name ts ''npm'')) =
          [''npm install'',
           ''# Generate Prisma Client'',
           ''npm run db:generate'',
           '''',
           ''# Push schema to database'',
           ''npm run db:push'',
           ''npm run dev'']
          @ fixed_examples
          @ [''npm run db:generate'']"
    if "newline \<notin> set name"
  proof -
    have "newline \<notin> set ''npm''" by simp
    from lines_of_readme[OF that this, of ts] show ?thesis
      by (simp add: code_lines_readme)
  qed
  from 1 2 3 4 show ?thesis by blast
qed

theorem package_manager_prefix_witness:
  "''bun'' \<noteq> ''npm'' \<and> newline \<notin> set ''demo-api'' \<and> newline \<notin> set ''bun''
   \<and> sublist (unlines (quick_start ''bun'' ''bun'')) (generateReadme ''demo-api'' False ''bun'')
   \<and> sublist (unlines (command_table False ''bun'')) (generateReadme ''demo-api'' False ''bun'')
   \<and> sublist (unlines (regenerate_client ''bun'')) (generateReadme ''demo-api'' False ''bun'')
   \<and> code_lines False (lines_of (generateReadme ''demo-api'' False ''bun'')) =
        [''bun install'',
         ''# Generate Prisma Client'',
         ''bun db:generate'',
         '''',
         ''# Push schema to database'',
         ''bun db:push'',
         ''bun dev'']
        @ fixed_examples
        @ [''bun db:generate'']"
  using package_manager_prefix [of "''bun''" "''demo-api''" False]
  by simp

end
